theory Spec2Isabelle
  imports Complex_Main "HOL-Library.Char_ord" "HOL-Library.List_Lexorder"
begin

section \<open>Network diagnostics report: the computation of \<open>network/index.tsx\<close>\<close>

text \<open>
  The report is computed by \<open>getNodeIDs\<close>, \<open>localityToString\<close> and the body of
  \<open>Network.render\<close> with its closure \<open>getLatencyCell\<close>. Each of them is embedded below
  under the name the source gives it. Of the markup that \<open>render\<close> builds around the
  computed values, the model keeps the cells of the latency table and the one call of
  the legend that can throw.

  Conventions of the embedding.
  \<^item> A node id is an \<open>int\<close>. The source keeps the ids of \<open>nodesSummary.nodeIDs\<close> and the
    keys of the latency objects as decimal strings and reads them back with
    \<open>Number.parseInt\<close>; the embedding identifies such a string with the id it denotes.
  \<^item> A JavaScript object used as a dictionary is an association list read with
    \<open>map_of\<close>; \<open>undefined\<close> is \<open>None\<close>.
  \<^item> A stored latency is a \<open>Long\<close> of nanoseconds, an \<open>int\<close>; milliseconds are \<open>real\<close>.
    Rounding of IEEE doubles is not modelled; \<open>undefined\<close> and \<open>NaN\<close> are.
  \<^item> An operation that throws in the source returns \<open>Inl\<close> of the error.
\<close>

subsection \<open>Errors and partial operations\<close>

datatype error = TypeError | SyntaxError

fun mapE :: "('a \<Rightarrow> error + 'b) \<Rightarrow> 'a list \<Rightarrow> error + 'b list" where
  "mapE f [] = Inr []"
| "mapE f (x # xs) =
     (case f x of
        Inl e \<Rightarrow> Inl e
      | Inr y \<Rightarrow> (case mapE f xs of Inl e \<Rightarrow> Inl e | Inr ys \<Rightarrow> Inr (y # ys)))"

fun filterE :: "('a \<Rightarrow> error + bool) \<Rightarrow> 'a list \<Rightarrow> error + 'a list" where
  "filterE p [] = Inr []"
| "filterE p (x # xs) =
     (case p x of
        Inl e \<Rightarrow> Inl e
      | Inr b \<Rightarrow> (case filterE p xs of
                    Inl e \<Rightarrow> Inl e
                  | Inr ys \<Rightarrow> Inr (if b then x # ys else ys)))"

text \<open>\<open>_.flatMap\<close> with a callback that may throw.\<close>

fun flatMapE :: "('a \<Rightarrow> error + 'b list) \<Rightarrow> 'a list \<Rightarrow> error + 'b list" where
  "flatMapE f [] = Inr []"
| "flatMapE f (x # xs) =
     (case f x of
        Inl e \<Rightarrow> Inl e
      | Inr ys \<Rightarrow> (case flatMapE f xs of Inl e \<Rightarrow> Inl e | Inr zs \<Rightarrow> Inr (ys @ zs)))"

subsection \<open>JavaScript numbers that may be undefined or NaN\<close>

datatype jsnum = Undefined | NaN | Num real

fun js_add :: "jsnum \<Rightarrow> jsnum \<Rightarrow> jsnum" where
  "js_add (Num x) (Num y) = Num (x + y)"
| "js_add _ _ = NaN"

fun js_sub :: "jsnum \<Rightarrow> jsnum \<Rightarrow> jsnum" where
  "js_sub (Num x) (Num y) = Num (x - y)"
| "js_sub _ _ = NaN"

text \<open>\<open>x > t\<close> and \<open>x < t\<close> for a number \<open>x\<close>: false when \<open>t\<close> is not a number.\<close>

fun js_gt :: "real \<Rightarrow> jsnum \<Rightarrow> bool" where
  "js_gt x (Num t) = (x > t)"
| "js_gt x _ = False"

fun js_lt :: "real \<Rightarrow> jsnum \<Rightarrow> bool" where
  "js_lt x (Num t) = (x < t)"
| "js_lt x _ = False"

subsection \<open>Filter parsing: \<open>getNodeIDs\<close> and the locality pattern\<close>

text \<open>
  \<open>parseInt(s, 10)\<close>: leading white space is skipped, one sign is read, then the longest
  run of decimal digits; no digit gives \<open>NaN\<close>, here \<open>None\<close>. White space is the ASCII
  part of the ECMAScript class.
\<close>

definition isWhiteSpace :: "char \<Rightarrow> bool" where
  "isWhiteSpace c =
     (c = CHR '' '' \<or> c = CHR 0x09 \<or> c = CHR 0x0A \<or> c = CHR 0x0B \<or> c = CHR 0x0C \<or> c = CHR 0x0D)"

definition isDigit :: "char \<Rightarrow> bool" where
  "isDigit c = (CHR ''0'' \<le> c \<and> c \<le> CHR ''9'')"

definition digitValue :: "char \<Rightarrow> nat" where
  "digitValue c = of_char c - of_char CHR ''0''"

definition digitsValue :: "string \<Rightarrow> nat" where
  "digitsValue ds = foldl (\<lambda>acc c. 10 * acc + digitValue c) 0 ds"

definition parseInt :: "string \<Rightarrow> int option" where
  "parseInt s =
     (let t = dropWhile isWhiteSpace s;
          sgn = (case t of c # r \<Rightarrow> if c = CHR ''-'' then - 1 else 1 | [] \<Rightarrow> (1::int));
          u = (case t of c # r \<Rightarrow> if c = CHR ''-'' \<or> c = CHR ''+'' then r else t | [] \<Rightarrow> []);
          z = takeWhile isDigit u
      in if z = [] then None else Some (sgn * int (digitsValue z)))"

text \<open>\<open>_.split(input, sep)\<close> for a one-character separator.\<close>

fun split :: "char \<Rightarrow> string \<Rightarrow> string list" where
  "split sep [] = [[]]"
| "split sep (c # cs) =
     (if c = sep then [] # split sep cs
      else (case split sep cs of t # ts \<Rightarrow> (c # t) # ts | [] \<Rightarrow> [[c]]))"

text \<open>
  The body of the \<open>_.forEach\<close> callback of \<open>getNodeIDs\<close>: \<open>if (nodeID)\<close> is false for
  \<open>NaN\<close> and for zero.
\<close>

definition addNodeID :: "string \<Rightarrow> int set \<Rightarrow> int set" where
  "addNodeID nodeIDString ids =
     (case parseInt nodeIDString of
        None \<Rightarrow> ids
      | Some nodeID \<Rightarrow> if nodeID \<noteq> 0 then insert nodeID ids else ids)"

text \<open>The query parameter may be missing (\<open>None\<close>); \<open>_.isEmpty\<close> holds of it and of \<open>""\<close>.\<close>

definition getNodeIDs :: "string option \<Rightarrow> int set" where
  "getNodeIDs input =
     (case input of
        None \<Rightarrow> {}
      | Some s \<Rightarrow> if s = [] then {} else fold addNodeID (split CHR '','' s) {})"

text \<open>
  The locality pattern of \<open>render\<close>. The constructor \<open>RegExp\<close> is a parameter: it returns
  the compiled pattern or throws \<open>SyntaxError\<close>, which \<open>render\<close> catches.
\<close>

definition localityRegExp :: "(string \<Rightarrow> error + 're) \<Rightarrow> string option \<Rightarrow> 're option" where
  "localityRegExp RegExp q =
     (case q of
        None \<Rightarrow> None
      | Some s \<Rightarrow>
          if s = [] then None
          else (case RegExp s of Inl e \<Rightarrow> None | Inr r \<Rightarrow> Some r))"

subsection \<open>The snapshot and the records computed from it\<close>

text \<open>
  Modelled from the spec: the enumeration \<open>LivenessStatus\<close> of \<open>src/redux/nodes\<close>,
  which is outside the sources at hand; the spec names HEALTHY, SUSPECT and, as an
  example of the other states, DEAD.
\<close>

datatype LivenessStatus = HEALTHY | SUSPECT | DEAD

text \<open>
  A node status, with the fields \<open>render\<close> reads: \<open>desc.node_id\<close>,
  \<open>desc.address.address_field\<close>, \<open>desc.locality.tiers\<close>, \<open>updated_at\<close> and
  \<open>latencies\<close> (peer id to nanoseconds).
\<close>

record NodeStatus =
  node_id :: int
  address_field :: string
  tiers :: "(string \<times> string) list"
  updated_at :: int
  latencies :: "(int \<times> int) list"

record NodesSummary =
  nodeStatuses :: "NodeStatus list"
  nodeIDs :: "int list"
  nodeStatusByID :: "(int \<times> NodeStatus) list"
  livenessStatusByNodeID :: "(int \<times> LivenessStatus) list"

record Identity =
  nodeID :: int
  address :: string
  locality :: string
  updatedAt :: int

record NoConnection =
  from_identity :: Identity
  to_identity :: Identity

subsection \<open>\<open>localityToString\<close> and the identities\<close>

fun join :: "string \<Rightarrow> string list \<Rightarrow> string" where
  "join sep [] = []"
| "join sep [x] = x"
| "join sep (x # y # ys) = x @ sep @ join sep (y # ys)"

definition localityToString :: "(string \<times> string) list \<Rightarrow> string" where
  "localityToString ts = join '','' (map (\<lambda>tier. fst tier @ ''='' @ snd tier) ts)"

definition identityOf :: "NodeStatus \<Rightarrow> Identity" where
  "identityOf status =
     \<lparr> nodeID = node_id status,
       address = address_field status,
       locality = localityToString (tiers status),
       updatedAt = updated_at status \<rparr>"

text \<open>The \<open>Map\<close> filled by \<open>_.forEach(nodesSummary.nodeStatuses, ...)\<close>: a later status wins.\<close>

definition identityByID :: "NodeStatus list \<Rightarrow> int \<Rightarrow> Identity option" where
  "identityByID statuses =
     fold (\<lambda>status m. m(node_id status \<mapsto> identityOf status)) statuses Map.empty"

text \<open>
  \<open>.map(nodeID => identityByID.get(nodeID))\<close> followed by a \<open>sortBy\<close> whose iteratee reads
  a field of each element: an id without identity makes the iteratee throw.
\<close>

definition getIdentity :: "(int \<Rightarrow> Identity option) \<Rightarrow> int \<Rightarrow> error + Identity" where
  "getIdentity byID n = (case byID n of None \<Rightarrow> Inl TypeError | Some i \<Rightarrow> Inr i)"

subsection \<open>Healthy and stale nodes\<close>

text \<open>The two chains as first assigned: the ids whose liveness is HEALTHY, or SUSPECT.\<close>

definition healthyIDsContext_init :: "NodesSummary \<Rightarrow> int list" where
  "healthyIDsContext_init ns =
     filter (\<lambda>n. map_of (livenessStatusByNodeID ns) n = Some HEALTHY) (nodeIDs ns)"

definition staleIDsContext_init :: "NodesSummary \<Rightarrow> int list" where
  "staleIDsContext_init ns =
     filter (\<lambda>n. map_of (livenessStatusByNodeID ns) n = Some SUSPECT) (nodeIDs ns)"

text \<open>\<open>if (requestedIDs.size > 0)\<close>: keep the requested ids.\<close>

definition requestedFilter :: "int set \<Rightarrow> int list \<Rightarrow> int list" where
  "requestedFilter requestedIDs ids =
     (if requestedIDs \<noteq> {} then filter (\<lambda>n. n \<in> requestedIDs) ids else ids)"

text \<open>
  \<open>if (!_.isNil(locality))\<close>: keep the ids whose locality string the pattern does not
  match. \<open>test\<close> is \<open>RegExp.prototype.test\<close>, a parameter. An id with no entry in
  \<open>nodeStatusByID\<close> makes the callback throw.
\<close>

definition notInLocality ::
  "('re \<Rightarrow> string \<Rightarrow> bool) \<Rightarrow> NodesSummary \<Rightarrow> 're \<Rightarrow> int \<Rightarrow> error + bool" where
  "notInLocality test ns re n =
     (case map_of (nodeStatusByID ns) n of
        None \<Rightarrow> Inl TypeError
      | Some status \<Rightarrow> Inr (\<not> test re (localityToString (tiers status))))"

definition localityFilter ::
  "('re \<Rightarrow> string \<Rightarrow> bool) \<Rightarrow> NodesSummary \<Rightarrow> 're option \<Rightarrow> int list \<Rightarrow> error + int list" where
  "localityFilter test ns loc ids =
     (case loc of
        None \<Rightarrow> Inr ids
      | Some re \<Rightarrow> filterE (notInLocality test ns re) ids)"

definition healthyIDs ::
  "('re \<Rightarrow> string \<Rightarrow> bool) \<Rightarrow> NodesSummary \<Rightarrow> int set \<Rightarrow> 're option \<Rightarrow> error + int list" where
  "healthyIDs test ns requestedIDs loc =
     localityFilter test ns loc (requestedFilter requestedIDs (healthyIDsContext_init ns))"

text \<open>The value of \<open>staleIDsContext\<close>; \<open>staleIDs\<close> of the source is the set of this list.\<close>

definition staleIDsContext ::
  "('re \<Rightarrow> string \<Rightarrow> bool) \<Rightarrow> NodesSummary \<Rightarrow> int set \<Rightarrow> 're option \<Rightarrow> error + int list" where
  "staleIDsContext test ns requestedIDs loc =
     localityFilter test ns loc (requestedFilter requestedIDs (staleIDsContext_init ns))"

text \<open>\<open>_.union\<close>: the values of both lists, each once, in order of first occurrence.\<close>

fun uniq :: "'a list \<Rightarrow> 'a list \<Rightarrow> 'a list" where
  "uniq seen [] = []"
| "uniq seen (x # xs) = (if x \<in> set seen then uniq seen xs else x # uniq (x # seen) xs)"

definition union :: "'a list \<Rightarrow> 'a list \<Rightarrow> 'a list" where
  "union xs ys = uniq [] (xs @ ys)"

text \<open>\<open>.map(get).sortBy(nodeID).sortBy(locality)\<close>; \<open>_.sortBy\<close> is a stable sort.\<close>

definition sortedIdentities :: "(int \<Rightarrow> Identity option) \<Rightarrow> int list \<Rightarrow> error + Identity list" where
  "sortedIdentities byID ids =
     (case mapE (getIdentity byID) ids of
        Inl e \<Rightarrow> Inl e
      | Inr is \<Rightarrow> Inr (sort_key locality (sort_key nodeID is)))"

definition displayIdentities ::
  "(int \<Rightarrow> Identity option) \<Rightarrow> int list \<Rightarrow> int list \<Rightarrow> error + Identity list" where
  "displayIdentities byID healthy stale = sortedIdentities byID (union healthy stale)"

definition staleIdentities :: "(int \<Rightarrow> Identity option) \<Rightarrow> int list \<Rightarrow> error + Identity list" where
  "staleIdentities byID stale = sortedIdentities byID stale"

subsection \<open>The latency sample and its statistics\<close>

definition NanoToMilli :: "int \<Rightarrow> real" where
  "NanoToMilli nano = real_of_int nano / 1000000"

definition without :: "'a list \<Rightarrow> 'a \<Rightarrow> 'a list" where
  "without xs a = filter (\<lambda>x. x \<noteq> a) xs"

text \<open>
  The two \<open>map\<close> callbacks of the sample, composed: the entry of \<open>nodeIDb\<close> in the
  latencies of \<open>nodeIDa\<close>, then \<open>latency.toNumber()\<close>, which throws when the entry is
  missing, then \<open>NanoToMilli\<close>.
\<close>

definition latencyMs :: "NodesSummary \<Rightarrow> int \<Rightarrow> int \<Rightarrow> error + real" where
  "latencyMs ns nodeIDa nodeIDb =
     (case map_of (nodeStatusByID ns) nodeIDa of
        None \<Rightarrow> Inl TypeError
      | Some status \<Rightarrow>
          (case map_of (latencies status) nodeIDb of
             None \<Rightarrow> Inl TypeError
           | Some latency \<Rightarrow> Inr (NanoToMilli latency)))"

text \<open>
  The callback of \<open>_.flatMap(healthyIDs, ...)\<close>. The filter is
  \<open>_.isFinite(ms) && ms > 0\<close>; every \<open>real\<close> is finite.
\<close>

definition latenciesFrom :: "NodesSummary \<Rightarrow> int list \<Rightarrow> int \<Rightarrow> error + real list" where
  "latenciesFrom ns healthy nodeIDa =
     (case mapE (latencyMs ns nodeIDa) (without healthy nodeIDa) of
        Inl e \<Rightarrow> Inl e
      | Inr mss \<Rightarrow> Inr (filter (\<lambda>ms. ms > 0) mss))"

text \<open>The constant \<open>latencies\<close> of \<open>render\<close>.\<close>

definition latencies_sample :: "NodesSummary \<Rightarrow> int list \<Rightarrow> error + real list" where
  "latencies_sample ns healthy = flatMapE (latenciesFrom ns healthy) healthy"

text \<open>
  Modelled from the spec: \<open>mean\<close> and \<open>deviation\<close> of the library d3, which is outside
  the sources at hand: the arithmetic mean, and the sample standard deviation with
  divisor \<open>n - 1\<close>. On an empty list both are \<open>undefined\<close>, the spec's "undefined numeric
  value"; d3 also returns \<open>undefined\<close> for the deviation of a single value.
\<close>

definition d3Mean :: "real list \<Rightarrow> jsnum" where
  "d3Mean xs = (if xs = [] then Undefined else Num (sum_list xs / real (length xs)))"

definition d3Variance :: "real list \<Rightarrow> jsnum" where
  "d3Variance xs =
     (if length xs < 2 then Undefined
      else Num (sum_list (map (\<lambda>x. (x - sum_list xs / real (length xs))\<^sup>2) xs)
                / real (length xs - 1)))"

definition d3Deviation :: "real list \<Rightarrow> jsnum" where
  "d3Deviation xs = (case d3Variance xs of Num v \<Rightarrow> Num (sqrt v) | u \<Rightarrow> u)"

definition mean :: "real list \<Rightarrow> jsnum" where
  "mean sample = d3Mean sample"

definition stddev :: "real list \<Rightarrow> jsnum" where
  "stddev sample = d3Deviation sample"

definition stddevPlus1 :: "real list \<Rightarrow> jsnum" where
  "stddevPlus1 sample = js_add (mean sample) (stddev sample)"

definition stddevPlus2 :: "real list \<Rightarrow> jsnum" where
  "stddevPlus2 sample = js_add (stddevPlus1 sample) (stddev sample)"

definition stddevMinus1 :: "real list \<Rightarrow> jsnum" where
  "stddevMinus1 sample = js_sub (mean sample) (stddev sample)"

definition stddevMinus2 :: "real list \<Rightarrow> jsnum" where
  "stddevMinus2 sample = js_sub (stddevMinus1 sample) (stddev sample)"

subsection \<open>The list of missing connections\<close>

text \<open>
  \<open>_.keys\<close> of a latency object: each key once; integer keys are enumerated in
  ascending order.
\<close>

definition keys :: "(int \<times> 'v) list \<Rightarrow> int list" where
  "keys m = sort (remdups (map fst m))"

definition difference :: "'a list \<Rightarrow> 'a list \<Rightarrow> 'a list" where
  "difference xs ys = filter (\<lambda>x. x \<notin> set ys) xs"

text \<open>
  The record built for one peer. The four \<open>sortBy\<close> iteratees read \<open>to.nodeID\<close>,
  \<open>to.locality\<close>, \<open>from.nodeID\<close> and \<open>from.locality\<close> of every record: a missing
  identity on either side makes them throw.
\<close>

definition noConnection :: "(int \<Rightarrow> Identity option) \<Rightarrow> int \<Rightarrow> int \<Rightarrow> error + NoConnection" where
  "noConnection byID nodeIDa nodeIDb =
     (case byID nodeIDb of
        None \<Rightarrow> Inl TypeError
      | Some t \<Rightarrow>
          (case byID nodeIDa of
             None \<Rightarrow> Inl TypeError
           | Some f \<Rightarrow> Inr \<lparr> from_identity = f, to_identity = t \<rparr>))"

text \<open>The callback of \<open>_.flatMap(healthyIDs, ...)\<close>, with its four sorts.\<close>

definition noConnectionsFrom ::
  "NodesSummary \<Rightarrow> (int \<Rightarrow> Identity option) \<Rightarrow> int list \<Rightarrow> int \<Rightarrow> error + NoConnection list" where
  "noConnectionsFrom ns byID healthy nodeIDa =
     (case map_of (nodeStatusByID ns) nodeIDa of
        None \<Rightarrow> Inl TypeError
      | Some status \<Rightarrow>
          (case mapE (noConnection byID nodeIDa) (difference (keys (latencies status)) healthy) of
             Inl e \<Rightarrow> Inl e
           | Inr ncs \<Rightarrow>
               Inr (sort_key (\<lambda>c. locality (from_identity c))
                     (sort_key (\<lambda>c. nodeID (from_identity c))
                       (sort_key (\<lambda>c. locality (to_identity c))
                         (sort_key (\<lambda>c. nodeID (to_identity c)) ncs))))))"

definition noConnections ::
  "NodesSummary \<Rightarrow> (int \<Rightarrow> Identity option) \<Rightarrow> int list \<Rightarrow> error + NoConnection list" where
  "noConnections ns byID healthy = flatMapE (noConnectionsFrom ns byID healthy) healthy"

subsection \<open>\<open>getLatencyCell\<close>\<close>

datatype heat = StddevPlus2 | StddevPlus1 | StddevMinus2 | StddevMinus1 | StddevEven

text \<open>
  The three kinds of cell: \<open>network-table__cell--self\<close>,
  \<open>network-table__cell--no-connection\<close>, and a cell with a heat class and the latency.
\<close>

datatype cell = SelfCell | NoConnectionCell | HeatCell heat real

text \<open>
  The closure reads \<open>staleIDs\<close>, \<open>nodesSummary\<close> and the four thresholds of \<open>render\<close>;
  here they are arguments.
\<close>

definition getLatencyCell ::
  "int set \<Rightarrow> NodesSummary \<Rightarrow> jsnum \<Rightarrow> jsnum \<Rightarrow> jsnum \<Rightarrow> jsnum \<Rightarrow> int \<Rightarrow> int \<Rightarrow> error + cell" where
  "getLatencyCell staleIDs ns plus2 plus1 minus2 minus1 nodeIDa nodeIDb =
     (if nodeIDa = nodeIDb then Inr SelfCell
      else if nodeIDa \<in> staleIDs \<or> nodeIDb \<in> staleIDs then Inr NoConnectionCell
      else
        (case map_of (nodeStatusByID ns) nodeIDa of
           None \<Rightarrow> Inl TypeError
         | Some status \<Rightarrow>
             (case map_of (latencies status) nodeIDb of
                None \<Rightarrow> Inr NoConnectionCell
              | Some l \<Rightarrow>
                  (let latency = NanoToMilli l
                   in Inr (HeatCell
                        (if js_gt latency plus2 then StddevPlus2
                         else if js_gt latency plus1 then StddevPlus1
                         else if js_lt latency minus2 then StddevMinus2
                         else if js_lt latency minus1 then StddevMinus1
                         else StddevEven)
                        latency)))))"

subsection \<open>\<open>render\<close>\<close>

text \<open>
  The values \<open>render\<close> computes, in its order. \<open>latencyTable\<close> holds one row of cells
  per displayed identity. The legend calls \<open>mean.toFixed(2)\<close>, which throws when
  \<open>mean\<close> is \<open>undefined\<close>; \<open>toFixed\<close> of \<open>NaN\<close> does not throw.
\<close>

record Report =
  r_requestedIDs :: "int set"
  r_healthyIDs :: "int list"
  r_staleIDs :: "int set"
  r_displayIdentities :: "Identity list"
  r_staleIdentities :: "Identity list"
  r_latencies :: "real list"
  r_noConnections :: "NoConnection list"
  r_latencyTable :: "cell list list"

datatype page = Loading | Page Report

definition latencyTable ::
  "int set \<Rightarrow> NodesSummary \<Rightarrow> real list \<Rightarrow> Identity list \<Rightarrow> error + cell list list" where
  "latencyTable staleIDs ns sample display =
     mapE (\<lambda>identityA.
            mapE (\<lambda>identityB.
                   getLatencyCell staleIDs ns
                     (stddevPlus2 sample) (stddevPlus1 sample)
                     (stddevMinus2 sample) (stddevMinus1 sample)
                     (nodeID identityA) (nodeID identityB))
                 display)
          display"

definition legend :: "real list \<Rightarrow> error + unit" where
  "legend sample = (case mean sample of Undefined \<Rightarrow> Inl TypeError | _ \<Rightarrow> Inr ())"

definition render ::
  "(string \<Rightarrow> error + 're) \<Rightarrow> ('re \<Rightarrow> string \<Rightarrow> bool) \<Rightarrow> NodesSummary \<Rightarrow>
   string option \<Rightarrow> string option \<Rightarrow> error + page" where
  "render RegExp test ns query_node_ids query_locality =
     (if nodeIDs ns = [] \<or> livenessStatusByNodeID ns = [] then Inr Loading
      else
        let requestedIDs = getNodeIDs query_node_ids;
            loc = localityRegExp RegExp query_locality;
            byID = identityByID (nodeStatuses ns)
        in
        (case healthyIDs test ns requestedIDs loc of Inl e \<Rightarrow> Inl e | Inr healthy \<Rightarrow>
        (case staleIDsContext test ns requestedIDs loc of Inl e \<Rightarrow> Inl e | Inr stale \<Rightarrow>
        (case displayIdentities byID healthy stale of Inl e \<Rightarrow> Inl e | Inr display \<Rightarrow>
        (case staleIdentities byID stale of Inl e \<Rightarrow> Inl e | Inr staleIs \<Rightarrow>
        (case latencies_sample ns healthy of Inl e \<Rightarrow> Inl e | Inr sample \<Rightarrow>
        (case noConnections ns byID healthy of Inl e \<Rightarrow> Inl e | Inr ncs \<Rightarrow>
        (case latencyTable (set stale) ns sample display of Inl e \<Rightarrow> Inl e | Inr table \<Rightarrow>
        (case legend sample of Inl e \<Rightarrow> Inl e | Inr u \<Rightarrow>
          Inr (Page \<lparr> r_requestedIDs = requestedIDs,
                      r_healthyIDs = healthy,
                      r_staleIDs = set stale,
                      r_displayIdentities = display,
                      r_staleIdentities = staleIs,
                      r_latencies = sample,
                      r_noConnections = ncs,
                      r_latencyTable = table \<rparr>))))))))))"

subsection \<open>Example snapshots\<close>

text \<open>
  A stand-in for the pattern engine: a pattern is a string, it matches the strings that
  contain it, and the pattern \<open>(\<close> does not compile.
\<close>

definition ex_RegExp :: "string \<Rightarrow> error + string" where
  "ex_RegExp s = (if s = ''('' then Inl SyntaxError else Inr s)"

definition ex_test :: "string \<Rightarrow> string \<Rightarrow> bool" where
  "ex_test r s = list_ex (\<lambda>i. take (length r) (drop i s) = r) [0..<Suc (length s)]"

text \<open>
  Four nodes: 1 and 2 healthy, 3 suspect, 4 dead. Node 1 reports latencies to 2, 3
  and 4, node 2 to 1 and 3, node 3 to 1.
\<close>

definition ex_status1 :: NodeStatus where
  "ex_status1 = \<lparr> node_id = 1, address_field = ''h1:26257'', tiers = [(''dc'', ''west'')],
     updated_at = 100, latencies = [(2, 5000000), (3, 7000000), (4, 9000000)] \<rparr>"

definition ex_status2 :: NodeStatus where
  "ex_status2 = \<lparr> node_id = 2, address_field = ''h2:26257'', tiers = [(''dc'', ''east'')],
     updated_at = 100, latencies = [(1, 5000000), (3, 6000000)] \<rparr>"

definition ex_status3 :: NodeStatus where
  "ex_status3 = \<lparr> node_id = 3, address_field = ''h3:26257'', tiers = [(''dc'', ''north'')],
     updated_at = 90, latencies = [(1, 8000000)] \<rparr>"

definition ex_status4 :: NodeStatus where
  "ex_status4 = \<lparr> node_id = 4, address_field = ''h4:26257'', tiers = [(''dc'', ''south'')],
     updated_at = 10, latencies = [] \<rparr>"

definition ex_ns :: NodesSummary where
  "ex_ns = \<lparr> nodeStatuses = [ex_status1, ex_status2, ex_status3, ex_status4],
     nodeIDs = [1, 2, 3, 4],
     nodeStatusByID = [(1, ex_status1), (2, ex_status2), (3, ex_status3), (4, ex_status4)],
     livenessStatusByNodeID = [(1, HEALTHY), (2, HEALTHY), (3, SUSPECT), (4, DEAD)] \<rparr>"

text \<open>Two healthy nodes; node 1 has not yet recorded a latency to node 2.\<close>

definition ex_missing1 :: NodeStatus where
  "ex_missing1 = \<lparr> node_id = 1, address_field = ''h1:26257'', tiers = [(''dc'', ''west'')],
     updated_at = 100, latencies = [] \<rparr>"

definition ex_missing2 :: NodeStatus where
  "ex_missing2 = \<lparr> node_id = 2, address_field = ''h2:26257'', tiers = [(''dc'', ''east'')],
     updated_at = 100, latencies = [(1, 5000000)] \<rparr>"

definition ex_missing :: NodesSummary where
  "ex_missing = \<lparr> nodeStatuses = [ex_missing1, ex_missing2],
     nodeIDs = [1, 2],
     nodeStatusByID = [(1, ex_missing1), (2, ex_missing2)],
     livenessStatusByNodeID = [(1, HEALTHY), (2, HEALTHY)] \<rparr>"

text \<open>Two healthy nodes whose recorded latencies are zero nanoseconds.\<close>

definition ex_zero1 :: NodeStatus where
  "ex_zero1 = \<lparr> node_id = 1, address_field = ''h1:26257'', tiers = [(''dc'', ''west'')],
     updated_at = 100, latencies = [(2, 0)] \<rparr>"

definition ex_zero2 :: NodeStatus where
  "ex_zero2 = \<lparr> node_id = 2, address_field = ''h2:26257'', tiers = [(''dc'', ''east'')],
     updated_at = 100, latencies = [(1, 0)] \<rparr>"

definition ex_zero :: NodesSummary where
  "ex_zero = \<lparr> nodeStatuses = [ex_zero1, ex_zero2],
     nodeIDs = [1, 2],
     nodeStatusByID = [(1, ex_zero1), (2, ex_zero2)],
     livenessStatusByNodeID = [(1, HEALTHY), (2, HEALTHY)] \<rparr>"

text \<open>
  Three healthy nodes. The latency recorded by node 2 for node 3 is negative, the one
  recorded by node 3 for node 2 is zero; the other four are 1 ms, 1 ms, 1 ms and 5 ms.
\<close>

definition ex_skew1 :: NodeStatus where
  "ex_skew1 = \<lparr> node_id = 1, address_field = ''h1:26257'', tiers = [(''dc'', ''west'')],
     updated_at = 100, latencies = [(2, 1000000), (3, 1000000)] \<rparr>"

definition ex_skew2 :: NodeStatus where
  "ex_skew2 = \<lparr> node_id = 2, address_field = ''h2:26257'', tiers = [(''dc'', ''east'')],
     updated_at = 100, latencies = [(1, 1000000), (3, - 3000000)] \<rparr>"

definition ex_skew3 :: NodeStatus where
  "ex_skew3 = \<lparr> node_id = 3, address_field = ''h3:26257'', tiers = [(''dc'', ''north'')],
     updated_at = 100, latencies = [(1, 5000000), (2, 0)] \<rparr>"

definition ex_skew :: NodesSummary where
  "ex_skew = \<lparr> nodeStatuses = [ex_skew1, ex_skew2, ex_skew3],
     nodeIDs = [1, 2, 3],
     nodeStatusByID = [(1, ex_skew1), (2, ex_skew2), (3, ex_skew3)],
     livenessStatusByNodeID = [(1, HEALTHY), (2, HEALTHY), (3, HEALTHY)] \<rparr>"

text \<open>The same snapshot, except that node 2 records 0 ns for node 3.\<close>

definition ex_skew2_zero :: NodeStatus where
  "ex_skew2_zero = \<lparr> node_id = 2, address_field = ''h2:26257'', tiers = [(''dc'', ''east'')],
     updated_at = 100, latencies = [(1, 1000000), (3, 0)] \<rparr>"

definition ex_skew_zero :: NodesSummary where
  "ex_skew_zero = \<lparr> nodeStatuses = [ex_skew1, ex_skew2_zero, ex_skew3],
     nodeIDs = [1, 2, 3],
     nodeStatusByID = [(1, ex_skew1), (2, ex_skew2_zero), (3, ex_skew3)],
     livenessStatusByNodeID = [(1, HEALTHY), (2, HEALTHY), (3, HEALTHY)] \<rparr>"

text \<open>
  Two healthy nodes; node 1 also records a latency to node 9, which has no status in
  the snapshot.
\<close>

definition ex_unknown1 :: NodeStatus where
  "ex_unknown1 = \<lparr> node_id = 1, address_field = ''h1:26257'', tiers = [(''dc'', ''west'')],
     updated_at = 100, latencies = [(2, 5000000), (9, 4000000)] \<rparr>"

definition ex_unknown2 :: NodeStatus where
  "ex_unknown2 = \<lparr> node_id = 2, address_field = ''h2:26257'', tiers = [(''dc'', ''east'')],
     updated_at = 100, latencies = [(1, 5000000)] \<rparr>"

definition ex_unknown :: NodesSummary where
  "ex_unknown = \<lparr> nodeStatuses = [ex_unknown1, ex_unknown2],
     nodeIDs = [1, 2],
     nodeStatusByID = [(1, ex_unknown1), (2, ex_unknown2)],
     livenessStatusByNodeID = [(1, HEALTHY), (2, HEALTHY)] \<rparr>"

lemmas ex_defs =
  ex_RegExp_def ex_test_def ex_status1_def ex_status2_def ex_status3_def ex_status4_def ex_ns_def
  ex_missing1_def ex_missing2_def ex_missing_def ex_zero1_def ex_zero2_def ex_zero_def
  ex_skew1_def ex_skew2_def ex_skew3_def ex_skew_def ex_skew2_zero_def ex_skew_zero_def
  ex_unknown1_def ex_unknown2_def ex_unknown_def

section \<open>Filter parsing\<close>

lemma fold_addNodeID:
  "fold addNodeID toks A = A \<union> {n. n \<noteq> 0 \<and> (\<exists>tok \<in> set toks. parseInt tok = Some n)}"
  by (induction toks arbitrary: A) (auto simp: addNodeID_def split: option.splits)

text \<open>
  Claim C6. Filter parsing has no failing branch. \<open>getNodeIDs\<close> returns exactly the
  non-zero integers that \<open>parseInt\<close> reads from the comma-separated tokens: a token
  that does not parse, or parses to zero, adds nothing, so 0 is never in the set. A
  locality pattern that does not compile gives no pattern, and with no pattern the
  locality filter keeps every id.
\<close>

theorem getNodeIDs_and_locality_never_raise:
  "getNodeIDs input =
     {n. n \<noteq> 0 \<and> (\<exists>s tok. input = Some s \<and> tok \<in> set (split CHR '','' s) \<and> parseInt tok = Some n)}
   \<and> 0 \<notin> getNodeIDs input
   \<and> (RegExp s = Inl e \<longrightarrow>
        localityRegExp RegExp (Some s) = None
        \<and> localityFilter test ns (localityRegExp RegExp (Some s)) ids = Inr ids)"
proof -
  have empty: "parseInt [] = None"
    by (simp add: parseInt_def)
  have a: "getNodeIDs input =
     {n. n \<noteq> 0 \<and> (\<exists>s tok. input = Some s \<and> tok \<in> set (split CHR '','' s) \<and> parseInt tok = Some n)}"
  proof (cases input)
    case None
    then show ?thesis by (simp add: getNodeIDs_def)
  next
    case (Some s)
    show ?thesis
    proof (cases "s = []")
      case True
      with Some show ?thesis by (simp add: getNodeIDs_def empty)
    next
      case False
      with Some show ?thesis by (auto simp: getNodeIDs_def fold_addNodeID)
    qed
  qed
  have b: "0 \<notin> getNodeIDs input"
    unfolding a by simp
  have c: "RegExp s = Inl e \<longrightarrow>
        localityRegExp RegExp (Some s) = None
        \<and> localityFilter test ns (localityRegExp RegExp (Some s)) ids = Inr ids"
    by (simp add: localityRegExp_def localityFilter_def)
  from a b c show ?thesis by blast
qed

theorem getNodeIDs_and_locality_never_raise_witness:
  "getNodeIDs (Some ''7, x,0,-0,12abc,,+3'') = {7, 12, 3}
   \<and> ex_RegExp ''('' = Inl SyntaxError
   \<and> localityRegExp ex_RegExp (Some ''('') = None
   \<and> localityFilter ex_test ex_ns (localityRegExp ex_RegExp (Some ''('')) [1, 2] = Inr [1, 2]"
proof -
  have h: "ex_RegExp ''('' = Inl SyntaxError"
    by (simp add: ex_RegExp_def)
  have g: "getNodeIDs (Some ''7, x,0,-0,12abc,,+3'') = {7, 12, 3}"
    by code_simp
  from getNodeIDs_and_locality_never_raise
         [of "Some ''7, x,0,-0,12abc,,+3''" ex_RegExp "''(''" SyntaxError ex_test ex_ns "[1, 2]"] h
  have "localityRegExp ex_RegExp (Some ''('') = None
        \<and> localityFilter ex_test ex_ns (localityRegExp ex_RegExp (Some ''('')) [1, 2] = Inr [1, 2]"
    by blast
  with h g show ?thesis by blast
qed

section \<open>The pairwise classifier\<close>

text \<open>
  Claim C4. \<open>getLatencyCell\<close> decides by the first test that applies. Equal ids give
  the self cell, for every pair. Otherwise a stale id on either side gives the
  no-connection cell. Otherwise, when node A has a status record without an entry for
  B, the cell is no-connection. Otherwise the cell carries the latency in milliseconds
  and one band: plus-2 when the value exceeds \<open>plus2\<close>; plus-1 when it does not but
  exceeds \<open>plus1\<close>; minus-2 when neither holds and it is below \<open>minus2\<close>; minus-1 when
  none of these holds and it is below \<open>minus1\<close>; even when none of the four tests
  holds. The five conditions exclude each other.
\<close>

theorem getLatencyCell_first_match:
  "getLatencyCell staleIDs ns plus2 plus1 minus2 minus1 a a = Inr SelfCell
   \<and> (a \<noteq> b \<and> (a \<in> staleIDs \<or> b \<in> staleIDs) \<longrightarrow>
        getLatencyCell staleIDs ns plus2 plus1 minus2 minus1 a b = Inr NoConnectionCell)
   \<and> (a \<noteq> b \<and> a \<notin> staleIDs \<and> b \<notin> staleIDs
        \<and> map_of (nodeStatusByID ns) a = Some status \<and> map_of (latencies status) b = None \<longrightarrow>
        getLatencyCell staleIDs ns plus2 plus1 minus2 minus1 a b = Inr NoConnectionCell)
   \<and> (a \<noteq> b \<and> a \<notin> staleIDs \<and> b \<notin> staleIDs
        \<and> map_of (nodeStatusByID ns) a = Some status \<and> map_of (latencies status) b = Some l \<longrightarrow>
        (\<exists>h. getLatencyCell staleIDs ns plus2 plus1 minus2 minus1 a b
               = Inr (HeatCell h (NanoToMilli l))
           \<and> (h = StddevPlus2 \<longleftrightarrow> js_gt (NanoToMilli l) plus2)
           \<and> (h = StddevPlus1 \<longleftrightarrow> \<not> js_gt (NanoToMilli l) plus2 \<and> js_gt (NanoToMilli l) plus1)
           \<and> (h = StddevMinus2 \<longleftrightarrow>
                \<not> js_gt (NanoToMilli l) plus2 \<and> \<not> js_gt (NanoToMilli l) plus1
                \<and> js_lt (NanoToMilli l) minus2)
           \<and> (h = StddevMinus1 \<longleftrightarrow>
                \<not> js_gt (NanoToMilli l) plus2 \<and> \<not> js_gt (NanoToMilli l) plus1
                \<and> \<not> js_lt (NanoToMilli l) minus2 \<and> js_lt (NanoToMilli l) minus1)
           \<and> (h = StddevEven \<longleftrightarrow>
                \<not> js_gt (NanoToMilli l) plus2 \<and> \<not> js_gt (NanoToMilli l) plus1
                \<and> \<not> js_lt (NanoToMilli l) minus2 \<and> \<not> js_lt (NanoToMilli l) minus1)))"
proof -
  have self: "getLatencyCell staleIDs ns plus2 plus1 minus2 minus1 a a = Inr SelfCell"
    by (simp add: getLatencyCell_def)
  have stale: "a \<noteq> b \<and> (a \<in> staleIDs \<or> b \<in> staleIDs) \<longrightarrow>
        getLatencyCell staleIDs ns plus2 plus1 minus2 minus1 a b = Inr NoConnectionCell"
    by (simp add: getLatencyCell_def)
  have absent: "a \<noteq> b \<and> a \<notin> staleIDs \<and> b \<notin> staleIDs
        \<and> map_of (nodeStatusByID ns) a = Some status \<and> map_of (latencies status) b = None \<longrightarrow>
        getLatencyCell staleIDs ns plus2 plus1 minus2 minus1 a b = Inr NoConnectionCell"
    by (simp add: getLatencyCell_def)
  have band: "a \<noteq> b \<and> a \<notin> staleIDs \<and> b \<notin> staleIDs
        \<and> map_of (nodeStatusByID ns) a = Some status \<and> map_of (latencies status) b = Some l \<longrightarrow>
        (\<exists>h. getLatencyCell staleIDs ns plus2 plus1 minus2 minus1 a b
               = Inr (HeatCell h (NanoToMilli l))
           \<and> (h = StddevPlus2 \<longleftrightarrow> js_gt (NanoToMilli l) plus2)
           \<and> (h = StddevPlus1 \<longleftrightarrow> \<not> js_gt (NanoToMilli l) plus2 \<and> js_gt (NanoToMilli l) plus1)
           \<and> (h = StddevMinus2 \<longleftrightarrow>
                \<not> js_gt (NanoToMilli l) plus2 \<and> \<not> js_gt (NanoToMilli l) plus1
                \<and> js_lt (NanoToMilli l) minus2)
           \<and> (h = StddevMinus1 \<longleftrightarrow>
                \<not> js_gt (NanoToMilli l) plus2 \<and> \<not> js_gt (NanoToMilli l) plus1
                \<and> \<not> js_lt (NanoToMilli l) minus2 \<and> js_lt (NanoToMilli l) minus1)
           \<and> (h = StddevEven \<longleftrightarrow>
                \<not> js_gt (NanoToMilli l) plus2 \<and> \<not> js_gt (NanoToMilli l) plus1
                \<and> \<not> js_lt (NanoToMilli l) minus2 \<and> \<not> js_lt (NanoToMilli l) minus1))"
    by (simp add: getLatencyCell_def Let_def)
  from self stale absent band show ?thesis by blast
qed

lemma ex_ns_lookup:
  "map_of (nodeStatusByID ex_ns) 1 = Some ex_status1"
  "map_of (nodeStatusByID ex_ns) 2 = Some ex_status2"
  "map_of (latencies ex_status1) 2 = Some 5000000"
  "map_of (latencies ex_status1) 3 = Some 7000000"
  "map_of (latencies ex_status2) 4 = None"
  by (simp_all add: ex_defs)

theorem getLatencyCell_first_match_witness:
  "getLatencyCell {3} ex_ns (Num 9) (Num 7) (Num 3) (Num 5) 1 1 = Inr SelfCell
   \<and> getLatencyCell {3} ex_ns (Num 9) (Num 7) (Num 3) (Num 5) 1 3 = Inr NoConnectionCell
   \<and> getLatencyCell {3} ex_ns (Num 9) (Num 7) (Num 3) (Num 5) 2 4 = Inr NoConnectionCell
   \<and> getLatencyCell {3} ex_ns (Num 9) (Num 7) (Num 3) (Num 5) 1 2 = Inr (HeatCell StddevEven 5)"
proof -
  have ms: "NanoToMilli 5000000 = 5"
    by (simp add: NanoToMilli_def)
  note w1 = getLatencyCell_first_match
              [of "{3}" ex_ns "Num 9" "Num 7" "Num 3" "Num 5" 1 3 ex_status1 7000000]
  note w2 = getLatencyCell_first_match
              [of "{3}" ex_ns "Num 9" "Num 7" "Num 3" "Num 5" 2 4 ex_status2 0]
  note w3 = getLatencyCell_first_match
              [of "{3}" ex_ns "Num 9" "Num 7" "Num 3" "Num 5" 1 2 ex_status1 5000000]
  have c1: "getLatencyCell {3} ex_ns (Num 9) (Num 7) (Num 3) (Num 5) 1 1 = Inr SelfCell"
    using w1 by blast
  have c2: "getLatencyCell {3} ex_ns (Num 9) (Num 7) (Num 3) (Num 5) 1 3 = Inr NoConnectionCell"
    using w1 by simp
  have c3: "getLatencyCell {3} ex_ns (Num 9) (Num 7) (Num 3) (Num 5) 2 4 = Inr NoConnectionCell"
    using w2 ex_ns_lookup by simp
  have c4: "getLatencyCell {3} ex_ns (Num 9) (Num 7) (Num 3) (Num 5) 1 2 = Inr (HeatCell StddevEven 5)"
    using w3 ex_ns_lookup ms by auto
  from c1 c2 c3 c4 show ?thesis by blast
qed

text \<open>
  Claim C5, as stated, includes the pair of a stale node with itself. There the first
  test of \<open>getLatencyCell\<close> applies: in the example snapshot node 3 is stale and the
  cell of the pair (3, 3) is the self cell.
\<close>

theorem stale_target_self_counterexample:
  "staleIDsContext ex_test ex_ns {} None = Inr [3]
   \<and> 3 \<in> set [3::int]
   \<and> getLatencyCell (set [3]) ex_ns (Num 9) (Num 7) (Num 3) (Num 5) 3 3 = Inr SelfCell
   \<and> getLatencyCell (set [3]) ex_ns (Num 9) (Num 7) (Num 3) (Num 5) 3 3 \<noteq> Inr NoConnectionCell"
  by (simp add: staleIDsContext_def localityFilter_def requestedFilter_def
        staleIDsContext_init_def getLatencyCell_def ex_defs)

text \<open>
  Claim C5, amended. For every node b in the stale set and every node a other than b,
  the cell of (a, b) is no-connection, whether or not a latency from a to b exists.
\<close>

theorem stale_target_no_connection:
  "b \<in> staleIDs \<Longrightarrow> a \<noteq> b \<Longrightarrow>
     getLatencyCell staleIDs ns plus2 plus1 minus2 minus1 a b = Inr NoConnectionCell"
  by (simp add: getLatencyCell_def)

theorem stale_target_no_connection_witness:
  "(3::int) \<in> {3} \<and> (1::int) \<noteq> 3
   \<and> map_of (latencies ex_status1) 3 = Some 7000000
   \<and> getLatencyCell {3} ex_ns (Num 9) (Num 7) (Num 3) (Num 5) 1 3 = Inr NoConnectionCell"
proof -
  have h1: "(3::int) \<in> {3}" and h2: "(1::int) \<noteq> 3"
    by simp_all
  have e: "map_of (latencies ex_status1) 3 = Some 7000000"
    by (simp add: ex_defs)
  from stale_target_no_connection [OF h1 h2, of ex_ns "Num 9" "Num 7" "Num 3" "Num 5"] h1 h2 e
  show ?thesis by blast
qed

section \<open>Statistics of an empty sample\<close>

lemma empty_stats:
  "mean [] = Undefined" "stddev [] = Undefined"
  "stddevPlus1 [] = NaN" "stddevPlus2 [] = NaN" "stddevMinus1 [] = NaN" "stddevMinus2 [] = NaN"
  by (simp_all add: mean_def stddev_def stddevPlus1_def stddevPlus2_def stddevMinus1_def
        stddevMinus2_def d3Mean_def d3Deviation_def d3Variance_def)

text \<open>
  Claim C1, as stated, does not hold of the code. In the snapshot \<open>ex_zero\<close> both nodes
  are healthy and not stale, the recorded latencies are 0 ns, and the sample list is
  empty. The four thresholds are then \<open>NaN\<close>, the latency of the pair (1, 2) is compared
  against them, and the cell gets the band even: no placeholder is produced.
\<close>

theorem empty_sample_classified_even_counterexample:
  "healthyIDs ex_test ex_zero {} None = Inr [1, 2]
   \<and> staleIDsContext ex_test ex_zero {} None = Inr []
   \<and> latencies_sample ex_zero [1, 2] = Inr []
   \<and> stddevPlus2 [] = NaN \<and> stddevPlus1 [] = NaN \<and> stddevMinus2 [] = NaN \<and> stddevMinus1 [] = NaN
   \<and> getLatencyCell (set []) ex_zero (stddevPlus2 []) (stddevPlus1 []) (stddevMinus2 [])
        (stddevMinus1 []) 1 2 = Inr (HeatCell StddevEven 0)"
  by (simp add: empty_stats healthyIDs_def staleIDsContext_def localityFilter_def
        requestedFilter_def healthyIDsContext_init_def staleIDsContext_init_def
        latencies_sample_def latenciesFrom_def latencyMs_def without_def NanoToMilli_def
        getLatencyCell_def ex_defs)

text \<open>
  Claim C1, amended. If the sample list is empty, \<open>mean\<close> and \<open>stddev\<close> are
  \<open>undefined\<close> and the four thresholds are \<open>NaN\<close>. Every comparison against them is
  false, so a pair of distinct nodes, neither stale, with a latency entry from the
  first to the second, is classified with the band even.
\<close>

theorem empty_sample_thresholds_NaN:
  assumes "latencies_sample ns healthy = Inr sample" and "sample = []"
  shows "mean sample = Undefined \<and> stddev sample = Undefined
         \<and> stddevPlus1 sample = NaN \<and> stddevPlus2 sample = NaN
         \<and> stddevMinus1 sample = NaN \<and> stddevMinus2 sample = NaN
         \<and> (a \<noteq> b \<and> a \<notin> staleIDs \<and> b \<notin> staleIDs
              \<and> map_of (nodeStatusByID ns) a = Some status
              \<and> map_of (latencies status) b = Some l \<longrightarrow>
             getLatencyCell staleIDs ns (stddevPlus2 sample) (stddevPlus1 sample)
               (stddevMinus2 sample) (stddevMinus1 sample) a b
             = Inr (HeatCell StddevEven (NanoToMilli l)))"
  using assms(2) by (simp add: empty_stats getLatencyCell_def)

theorem empty_sample_thresholds_NaN_witness:
  "latencies_sample ex_zero [1, 2] = Inr []
   \<and> mean [] = Undefined \<and> stddevPlus2 [] = NaN \<and> stddevMinus2 [] = NaN
   \<and> getLatencyCell {} ex_zero (stddevPlus2 []) (stddevPlus1 []) (stddevMinus2 [])
        (stddevMinus1 []) 1 2 = Inr (HeatCell StddevEven (NanoToMilli 0))"
proof -
  have s: "latencies_sample ex_zero [1, 2] = Inr []"
    by (simp add: latencies_sample_def latenciesFrom_def latencyMs_def without_def
          NanoToMilli_def ex_defs)
  have l: "map_of (nodeStatusByID ex_zero) 1 = Some ex_zero1" "map_of (latencies ex_zero1) 2 = Some 0"
    by (simp_all add: ex_defs)
  have n: "(1::int) \<noteq> 2" "(1::int) \<notin> {}" "(2::int) \<notin> {}"
    by simp_all
  from empty_sample_thresholds_NaN [OF s refl, of 1 2 "{}" ex_zero1 0] s l n
  show ?thesis by blast
qed

section \<open>Missing data\<close>

text \<open>
  Claim C2 at the snapshot \<open>ex_missing\<close>: nodes 1 and 2 are healthy and node 1 has no
  latency entry for node 2. The sample computation calls \<open>toNumber\<close> on the missing
  entry, so it throws, and with it \<open>render\<close>. \<open>getLatencyCell\<close> tests the same entry
  with \<open>_.isNil\<close> and returns the no-connection cell. At the snapshot \<open>ex_unknown\<close>
  node 1 records a latency to node 9, which has no identity: the \<open>sortBy\<close> iteratee of
  the no-connection list reads \<open>to.nodeID\<close> of \<open>undefined\<close> and \<open>render\<close> throws.
\<close>

theorem missing_latency_entry_throws:
  "healthyIDs ex_test ex_missing {} None = Inr [1, 2]
   \<and> map_of (latencies ex_missing1) 2 = None
   \<and> latencies_sample ex_missing [1, 2] = Inl TypeError
   \<and> render ex_RegExp ex_test ex_missing None None = Inl TypeError
   \<and> getLatencyCell {} ex_missing NaN NaN NaN NaN 1 2 = Inr NoConnectionCell
   \<and> healthyIDs ex_test ex_unknown {} None = Inr [1, 2]
   \<and> identityByID (nodeStatuses ex_unknown) 9 = None
   \<and> noConnections ex_unknown (identityByID (nodeStatuses ex_unknown)) [1, 2] = Inl TypeError
   \<and> render ex_RegExp ex_test ex_unknown None None = Inl TypeError"
  by (simp add: healthyIDs_def staleIDsContext_def localityFilter_def
        requestedFilter_def healthyIDsContext_init_def staleIDsContext_init_def
        latencies_sample_def latenciesFrom_def latencyMs_def without_def NanoToMilli_def
        getLatencyCell_def render_def getNodeIDs_def localityRegExp_def
        displayIdentities_def staleIdentities_def sortedIdentities_def union_def
        noConnections_def noConnectionsFrom_def noConnection_def keys_def difference_def
        getIdentity_def identityByID_def identityOf_def localityToString_def ex_defs)

section \<open>Order of the no-connection list\<close>

text \<open>
  Claim C3 at the snapshot \<open>ex_ns\<close>. The four sorts run inside the \<open>flatMap\<close>
  callback, once per healthy node, so the list is concatenated in the order of
  \<open>healthyIDs\<close>: the entries of node 1 (locality \<open>dc=west\<close>) come before the entry of
  node 2 (locality \<open>dc=east\<close>), and the list is not ordered by \<open>from.locality\<close>. The
  four sorts applied to the whole list would put the entry of node 2 first.
\<close>

theorem noConnections_grouped_by_healthy_order:
  "healthyIDs ex_test ex_ns {} None = Inr [1, 2]
   \<and> noConnections ex_ns (identityByID (nodeStatuses ex_ns)) [1, 2]
       = Inr [\<lparr> from_identity = identityOf ex_status1, to_identity = identityOf ex_status3 \<rparr>,
              \<lparr> from_identity = identityOf ex_status1, to_identity = identityOf ex_status4 \<rparr>,
              \<lparr> from_identity = identityOf ex_status2, to_identity = identityOf ex_status3 \<rparr>]
   \<and> locality (identityOf ex_status1) = ''dc=west''
   \<and> locality (identityOf ex_status2) = ''dc=east''
   \<and> \<not> ''dc=west'' \<le> ''dc=east''
   \<and> sort_key (\<lambda>c. locality (from_identity c))
        (sort_key (\<lambda>c. nodeID (from_identity c))
          (sort_key (\<lambda>c. locality (to_identity c))
            (sort_key (\<lambda>c. nodeID (to_identity c))
              [\<lparr> from_identity = identityOf ex_status1, to_identity = identityOf ex_status3 \<rparr>,
               \<lparr> from_identity = identityOf ex_status1, to_identity = identityOf ex_status4 \<rparr>,
               \<lparr> from_identity = identityOf ex_status2, to_identity = identityOf ex_status3 \<rparr>])))
       = [\<lparr> from_identity = identityOf ex_status2, to_identity = identityOf ex_status3 \<rparr>,
          \<lparr> from_identity = identityOf ex_status1, to_identity = identityOf ex_status3 \<rparr>,
          \<lparr> from_identity = identityOf ex_status1, to_identity = identityOf ex_status4 \<rparr>]"
  by (simp add: healthyIDs_def localityFilter_def requestedFilter_def healthyIDsContext_init_def
        noConnections_def noConnectionsFrom_def noConnection_def keys_def difference_def
        identityByID_def identityOf_def localityToString_def ex_defs)

section \<open>Healthy and stale nodes under the filter\<close>

lemma filterE_Inr_iff:
  "filterE p xs = Inr ys \<longleftrightarrow>
     (\<forall>x\<in>set xs. \<exists>b. p x = Inr b) \<and> ys = filter (\<lambda>x. p x = Inr True) xs"
proof (induction xs arbitrary: ys)
  case Nil
  show ?case by auto
next
  case (Cons x xs)
  show ?case
  proof (cases "p x")
    case (Inl e)
    then show ?thesis by auto
  next
    case (Inr b)
    show ?thesis
    proof (cases "filterE p xs")
      case (Inl e)
      with Cons.IH \<open>p x = Inr b\<close> show ?thesis by auto
    next
      case r: (Inr zs)
      with Cons.IH [of zs] \<open>p x = Inr b\<close> show ?thesis by auto
    qed
  qed
qed

lemma mapE_Inr_iff:
  "mapE f xs = Inr ys \<longleftrightarrow> list_all2 (\<lambda>x y. f x = Inr y) xs ys"
proof (induction xs arbitrary: ys)
  case Nil
  show ?case by auto
next
  case (Cons x xs)
  show ?case
  proof (cases "f x")
    case (Inl e)
    then show ?thesis by (auto simp: list_all2_Cons1)
  next
    case (Inr y)
    show ?thesis
    proof (cases "mapE f xs")
      case (Inl e)
      with Cons.IH \<open>f x = Inr y\<close> show ?thesis by (auto simp: list_all2_Cons1)
    next
      case r: (Inr zs)
      with Cons.IH \<open>f x = Inr y\<close> show ?thesis by (auto simp: list_all2_Cons1)
    qed
  qed
qed

lemma notInLocality_True_iff:
  "notInLocality test ns re n = Inr True \<longleftrightarrow>
     (\<exists>status. map_of (nodeStatusByID ns) n = Some status
        \<and> \<not> test re (localityToString (tiers status)))"
  by (simp add: notInLocality_def split: option.splits)

lemma notInLocality_defined_iff:
  "(\<exists>b. notInLocality test ns re n = Inr b) \<longleftrightarrow> (\<exists>status. map_of (nodeStatusByID ns) n = Some status)"
  by (simp add: notInLocality_def split: option.splits)

lemma localityFilter_Some_iff:
  "localityFilter test ns (Some re) ids = Inr ys \<longleftrightarrow>
     (\<forall>n\<in>set ids. \<exists>status. map_of (nodeStatusByID ns) n = Some status)
     \<and> ys = filter (\<lambda>n. \<forall>status. map_of (nodeStatusByID ns) n = Some status \<longrightarrow>
                         \<not> test re (localityToString (tiers status))) ids"
proof -
  have "filter (\<lambda>n. notInLocality test ns re n = Inr True) ids
        = filter (\<lambda>n. \<forall>status. map_of (nodeStatusByID ns) n = Some status \<longrightarrow>
                         \<not> test re (localityToString (tiers status))) ids"
    if "\<forall>n\<in>set ids. \<exists>status. map_of (nodeStatusByID ns) n = Some status"
    using that by (intro filter_cong refl) (auto simp: notInLocality_True_iff)
  then show ?thesis
    unfolding localityFilter_def option.case filterE_Inr_iff notInLocality_defined_iff
    by auto
qed

lemma requestedFilter_subset: "set (requestedFilter requestedIDs ids) \<subseteq> set ids"
  by (auto simp: requestedFilter_def)

lemma init_subset:
  "set (healthyIDsContext_init ns) \<subseteq> set (nodeIDs ns)"
  "set (staleIDsContext_init ns) \<subseteq> set (nodeIDs ns)"
  by (auto simp: healthyIDsContext_init_def staleIDsContext_init_def)

text \<open>
  Claim C7. With no locality pattern the healthy and the stale list are the lists left
  by the node-id filter. With a pattern, each list that is returned is that list without
  the ids whose locality string the pattern matches: the pattern excludes. Both lists
  are returned whenever every id of \<open>nodeIDs\<close> has a status record.
\<close>

theorem locality_pattern_excludes:
  "healthyIDs test ns requestedIDs None = Inr (requestedFilter requestedIDs (healthyIDsContext_init ns))
   \<and> staleIDsContext test ns requestedIDs None
       = Inr (requestedFilter requestedIDs (staleIDsContext_init ns))
   \<and> (healthyIDs test ns requestedIDs (Some re) = Inr hs \<longrightarrow>
        hs = filter (\<lambda>n. \<forall>status. map_of (nodeStatusByID ns) n = Some status \<longrightarrow>
                            \<not> test re (localityToString (tiers status)))
               (requestedFilter requestedIDs (healthyIDsContext_init ns)))
   \<and> (staleIDsContext test ns requestedIDs (Some re) = Inr ss \<longrightarrow>
        ss = filter (\<lambda>n. \<forall>status. map_of (nodeStatusByID ns) n = Some status \<longrightarrow>
                            \<not> test re (localityToString (tiers status)))
               (requestedFilter requestedIDs (staleIDsContext_init ns)))
   \<and> ((\<forall>n\<in>set (nodeIDs ns). \<exists>status. map_of (nodeStatusByID ns) n = Some status) \<longrightarrow>
        (\<exists>hs' ss'. healthyIDs test ns requestedIDs (Some re) = Inr hs'
                  \<and> staleIDsContext test ns requestedIDs (Some re) = Inr ss'))"
proof -
  have none: "healthyIDs test ns requestedIDs None
                = Inr (requestedFilter requestedIDs (healthyIDsContext_init ns))"
    "staleIDsContext test ns requestedIDs None
                = Inr (requestedFilter requestedIDs (staleIDsContext_init ns))"
    by (simp_all add: healthyIDs_def staleIDsContext_def localityFilter_def)
  have h: "healthyIDs test ns requestedIDs (Some re) = Inr hs \<longrightarrow>
        hs = filter (\<lambda>n. \<forall>status. map_of (nodeStatusByID ns) n = Some status \<longrightarrow>
                            \<not> test re (localityToString (tiers status)))
               (requestedFilter requestedIDs (healthyIDsContext_init ns))"
    by (simp add: healthyIDs_def localityFilter_Some_iff)
  have s: "staleIDsContext test ns requestedIDs (Some re) = Inr ss \<longrightarrow>
        ss = filter (\<lambda>n. \<forall>status. map_of (nodeStatusByID ns) n = Some status \<longrightarrow>
                            \<not> test re (localityToString (tiers status)))
               (requestedFilter requestedIDs (staleIDsContext_init ns))"
    by (simp add: staleIDsContext_def localityFilter_Some_iff)
  have t: "(\<forall>n\<in>set (nodeIDs ns). \<exists>status. map_of (nodeStatusByID ns) n = Some status) \<longrightarrow>
        (\<exists>hs' ss'. healthyIDs test ns requestedIDs (Some re) = Inr hs'
                  \<and> staleIDsContext test ns requestedIDs (Some re) = Inr ss')"
  proof (intro impI)
    assume wf: "\<forall>n\<in>set (nodeIDs ns). \<exists>status. map_of (nodeStatusByID ns) n = Some status"
    have "\<forall>n\<in>set (requestedFilter requestedIDs (healthyIDsContext_init ns)).
            \<exists>status. map_of (nodeStatusByID ns) n = Some status"
      using wf requestedFilter_subset [of requestedIDs "healthyIDsContext_init ns"]
        init_subset(1) [of ns] by blast
    then have 1: "\<exists>hs'. healthyIDs test ns requestedIDs (Some re) = Inr hs'"
      by (simp add: healthyIDs_def localityFilter_Some_iff)
    have "\<forall>n\<in>set (requestedFilter requestedIDs (staleIDsContext_init ns)).
            \<exists>status. map_of (nodeStatusByID ns) n = Some status"
      using wf requestedFilter_subset [of requestedIDs "staleIDsContext_init ns"]
        init_subset(2) [of ns] by blast
    then have 2: "\<exists>ss'. staleIDsContext test ns requestedIDs (Some re) = Inr ss'"
      by (simp add: staleIDsContext_def localityFilter_Some_iff)
    from 1 2 show "\<exists>hs' ss'. healthyIDs test ns requestedIDs (Some re) = Inr hs'
                  \<and> staleIDsContext test ns requestedIDs (Some re) = Inr ss'"
      by blast
  qed
  from none h s t show ?thesis by blast
qed


theorem locality_pattern_excludes_witness:
  "map_of (nodeStatusByID ex_ns) 1 = Some ex_status1
   \<and> map_of (nodeStatusByID ex_ns) 2 = Some ex_status2
   \<and> map_of (nodeStatusByID ex_ns) 3 = Some ex_status3
   \<and> map_of (nodeStatusByID ex_ns) 4 = Some ex_status4
   \<and> healthyIDs ex_test ex_ns {} None = Inr [1, 2]
   \<and> staleIDsContext ex_test ex_ns {} None = Inr [3]
   \<and> ex_test ''west'' (localityToString (tiers ex_status1))
   \<and> healthyIDs ex_test ex_ns {} (Some ''west'') = Inr [2]
   \<and> staleIDsContext ex_test ex_ns {} (Some ''west'') = Inr [3]
   \<and> [2] = filter (\<lambda>n. \<not> ex_test ''west''
                            (localityToString (tiers (the (map_of (nodeStatusByID ex_ns) n)))))
               [1, 2]"
proof -
  have st: "map_of (nodeStatusByID ex_ns) 1 = Some ex_status1"
    "map_of (nodeStatusByID ex_ns) 2 = Some ex_status2"
    "map_of (nodeStatusByID ex_ns) 3 = Some ex_status3"
    "map_of (nodeStatusByID ex_ns) 4 = Some ex_status4"
    by (simp_all add: ex_defs)
  have wf: "\<forall>n\<in>set (nodeIDs ex_ns). \<exists>status. map_of (nodeStatusByID ex_ns) n = Some status"
    by (simp add: ex_defs)
  have m: "ex_test ''west'' (localityToString (tiers ex_status1))"
    by (simp add: localityToString_def ex_defs)
  have n: "requestedFilter {} (healthyIDsContext_init ex_ns) = [1, 2]"
    "requestedFilter {} (staleIDsContext_init ex_ns) = [3]"
    by (simp_all add: requestedFilter_def healthyIDsContext_init_def staleIDsContext_init_def ex_defs)
  have hv: "healthyIDs ex_test ex_ns {} (Some ''west'') = Inr [2]"
    by code_simp
  have sv: "staleIDsContext ex_test ex_ns {} (Some ''west'') = Inr [3]"
    by code_simp
  have f: "filter (\<lambda>n. \<forall>status. map_of (nodeStatusByID ex_ns) n = Some status \<longrightarrow>
                            \<not> ex_test ''west'' (localityToString (tiers status))) [1, 2]
           = filter (\<lambda>n. \<not> ex_test ''west''
                            (localityToString (tiers (the (map_of (nodeStatusByID ex_ns) n)))))
               [1, 2]"
    by (intro filter_cong refl) (auto simp: st)
  from locality_pattern_excludes [of ex_test ex_ns "{}" "''west''" "[2]" "[3]"] wf hv sv
  have "healthyIDs ex_test ex_ns {} None = Inr [1, 2]
        \<and> staleIDsContext ex_test ex_ns {} None = Inr [3]
        \<and> [2] = filter (\<lambda>n. \<forall>status. map_of (nodeStatusByID ex_ns) n = Some status \<longrightarrow>
                            \<not> ex_test ''west'' (localityToString (tiers status))) [1, 2]"
    unfolding n by blast
  with st m hv sv show ?thesis unfolding f by blast
qed

lemma mapE_set:
  "mapE f xs = Inr ys \<Longrightarrow> set ys = {y. \<exists>x\<in>set xs. f x = Inr y}"
proof (induction xs arbitrary: ys)
  case Nil
  then show ?case by simp
next
  case (Cons x xs)
  from Cons.prems obtain y zs where fx: "f x = Inr y" and r: "mapE f xs = Inr zs" and ys: "ys = y # zs"
    by (auto split: sum.splits)
  from Cons.IH [OF r] fx ys show ?case by auto
qed

lemma fold_identity_nodeID:
  "fold (\<lambda>status m. m(node_id status \<mapsto> identityOf status)) statuses m n = Some i \<Longrightarrow>
     (\<forall>k j. m k = Some j \<longrightarrow> nodeID j = k) \<Longrightarrow> nodeID i = n"
proof (induction statuses arbitrary: m)
  case Nil
  then show ?case by simp
next
  case (Cons s statuses)
  show ?case
  proof (rule Cons.IH)
    show "fold (\<lambda>status m. m(node_id status \<mapsto> identityOf status)) statuses
            (m(node_id s \<mapsto> identityOf s)) n = Some i"
      using Cons.prems(1) by (simp only: fold.simps comp_apply)
    show "\<forall>k j. (m(node_id s \<mapsto> identityOf s)) k = Some j \<longrightarrow> nodeID j = k"
      using Cons.prems(2) by (auto simp: identityOf_def)
  qed
qed

lemma identityByID_nodeID: "identityByID statuses n = Some i \<Longrightarrow> nodeID i = n"
  unfolding identityByID_def by (erule fold_identity_nodeID) simp

lemma set_uniq: "set (uniq seen xs) = set xs - set seen"
  by (induction xs arbitrary: seen) auto

lemma set_union: "set (union xs ys) = set xs \<union> set ys"
  by (simp add: union_def set_uniq)

lemma sortedIdentities_set:
  assumes "sortedIdentities byID ids = Inr sorted_ids"
  shows "set sorted_ids = {i. \<exists>n\<in>set ids. byID n = Some i}"
proof -
  from assms obtain js where m: "mapE (getIdentity byID) ids = Inr js"
    and srt: "sorted_ids = sort_key locality (sort_key nodeID js)"
    by (auto simp: sortedIdentities_def split: sum.splits)
  have "set js = {i. \<exists>n\<in>set ids. byID n = Some i}"
    unfolding mapE_set [OF m] by (auto simp: getIdentity_def split: option.splits)
  with srt show ?thesis by simp
qed

lemma localityFilter_subset:
  "localityFilter test ns loc ids = Inr ys \<Longrightarrow> set ys \<subseteq> set ids"
  by (cases loc) (auto simp: localityFilter_def filterE_Inr_iff)

lemma healthyIDs_subset:
  "healthyIDs test ns requestedIDs loc = Inr hs \<Longrightarrow> set hs \<subseteq> set (healthyIDsContext_init ns)"
  unfolding healthyIDs_def
  using localityFilter_subset requestedFilter_subset by fast

lemma staleIDsContext_subset:
  "staleIDsContext test ns requestedIDs loc = Inr ss \<Longrightarrow> set ss \<subseteq> set (staleIDsContext_init ns)"
  unfolding staleIDsContext_def
  using localityFilter_subset requestedFilter_subset by fast

lemma set_init:
  "set (healthyIDsContext_init ns)
     = {n \<in> set (nodeIDs ns). map_of (livenessStatusByNodeID ns) n = Some HEALTHY}"
  "set (staleIDsContext_init ns)
     = {n \<in> set (nodeIDs ns). map_of (livenessStatusByNodeID ns) n = Some SUSPECT}"
  by (auto simp: healthyIDsContext_init_def staleIDsContext_init_def)

lemma init_count:
  assumes "distinct (nodeIDs ns)"
  shows "length (healthyIDsContext_init ns) + card (set (staleIDsContext_init ns))
         = card {n \<in> set (nodeIDs ns). map_of (livenessStatusByNodeID ns) n = Some HEALTHY
                   \<or> map_of (livenessStatusByNodeID ns) n = Some SUSPECT}"
proof -
  have dh: "distinct (healthyIDsContext_init ns)"
    using assms by (simp add: healthyIDsContext_init_def)
  have disj: "set (healthyIDsContext_init ns) \<inter> set (staleIDsContext_init ns) = {}"
    by (auto simp: set_init)
  have un: "{n \<in> set (nodeIDs ns). map_of (livenessStatusByNodeID ns) n = Some HEALTHY
                   \<or> map_of (livenessStatusByNodeID ns) n = Some SUSPECT}
            = set (healthyIDsContext_init ns) \<union> set (staleIDsContext_init ns)"
    by (auto simp: set_init)
  have "card (set (healthyIDsContext_init ns) \<union> set (staleIDsContext_init ns))
        = card (set (healthyIDsContext_init ns)) + card (set (staleIDsContext_init ns))"
    using disj by (intro card_Un_disjoint) simp_all
  with un distinct_card [OF dh] show ?thesis by simp
qed

text \<open>
  Claim C8. The healthy set as first computed holds exactly the ids of \<open>nodeIDs\<close> whose
  liveness is HEALTHY, the stale set exactly those whose liveness is SUSPECT. For every
  filter the two resulting lists stay inside these sets and are disjoint, every
  displayed identity belongs to a node whose liveness is HEALTHY or SUSPECT, and every
  stale identity to a node whose liveness is SUSPECT. A missing or empty query gives
  the empty filter; with it the lists are the sets as first computed, and, the ids of
  the snapshot being distinct, the
  length of \<open>healthyIDs\<close> plus the size of \<open>staleIDs\<close> is the number of nodes whose
  liveness is HEALTHY or SUSPECT.
\<close>

theorem healthy_and_stale_sets:
  "set (healthyIDsContext_init ns)
     = {n \<in> set (nodeIDs ns). map_of (livenessStatusByNodeID ns) n = Some HEALTHY}
   \<and> set (staleIDsContext_init ns)
     = {n \<in> set (nodeIDs ns). map_of (livenessStatusByNodeID ns) n = Some SUSPECT}
   \<and> (healthyIDs test ns requestedIDs loc = Inr hs
        \<and> staleIDsContext test ns requestedIDs loc = Inr ss \<longrightarrow>
        set hs \<subseteq> set (healthyIDsContext_init ns)
        \<and> set ss \<subseteq> set (staleIDsContext_init ns)
        \<and> set hs \<inter> set ss = {}
        \<and> (displayIdentities (identityByID (nodeStatuses ns)) hs ss = Inr ds \<longrightarrow>
             (\<forall>i\<in>set ds. map_of (livenessStatusByNodeID ns) (nodeID i) = Some HEALTHY
                         \<or> map_of (livenessStatusByNodeID ns) (nodeID i) = Some SUSPECT))
        \<and> (staleIdentities (identityByID (nodeStatuses ns)) ss = Inr sis \<longrightarrow>
             (\<forall>i\<in>set sis. map_of (livenessStatusByNodeID ns) (nodeID i) = Some SUSPECT)))
   \<and> getNodeIDs None = {} \<and> getNodeIDs (Some []) = {}
   \<and> localityRegExp RegExp None = None \<and> localityRegExp RegExp (Some []) = None
   \<and> healthyIDs test ns {} None = Inr (healthyIDsContext_init ns)
   \<and> staleIDsContext test ns {} None = Inr (staleIDsContext_init ns)
   \<and> (distinct (nodeIDs ns) \<longrightarrow>
        length (healthyIDsContext_init ns) + card (set (staleIDsContext_init ns))
        = card {n \<in> set (nodeIDs ns). map_of (livenessStatusByNodeID ns) n = Some HEALTHY
                  \<or> map_of (livenessStatusByNodeID ns) n = Some SUSPECT})"
proof -
  have parsed: "getNodeIDs None = {}" "getNodeIDs (Some []) = {}"
    "localityRegExp RegExp None = None" "localityRegExp RegExp (Some []) = None"
    by (simp_all add: getNodeIDs_def localityRegExp_def)
  have filtered: "set hs \<subseteq> set (healthyIDsContext_init ns)
        \<and> set ss \<subseteq> set (staleIDsContext_init ns)
        \<and> set hs \<inter> set ss = {}
        \<and> (displayIdentities (identityByID (nodeStatuses ns)) hs ss = Inr ds \<longrightarrow>
             (\<forall>i\<in>set ds. map_of (livenessStatusByNodeID ns) (nodeID i) = Some HEALTHY
                         \<or> map_of (livenessStatusByNodeID ns) (nodeID i) = Some SUSPECT))
        \<and> (staleIdentities (identityByID (nodeStatuses ns)) ss = Inr sis \<longrightarrow>
             (\<forall>i\<in>set sis. map_of (livenessStatusByNodeID ns) (nodeID i) = Some SUSPECT))"
    if h: "healthyIDs test ns requestedIDs loc = Inr hs"
      and s: "staleIDsContext test ns requestedIDs loc = Inr ss"
  proof -
    note hsub = healthyIDs_subset [OF h] and ssub = staleIDsContext_subset [OF s]
    have disj: "set hs \<inter> set ss = {}"
      using hsub ssub by (fastforce simp: set_init)
    have d: "\<forall>i\<in>set ds. map_of (livenessStatusByNodeID ns) (nodeID i) = Some HEALTHY
                         \<or> map_of (livenessStatusByNodeID ns) (nodeID i) = Some SUSPECT"
      if "displayIdentities (identityByID (nodeStatuses ns)) hs ss = Inr ds"
    proof
      fix i assume "i \<in> set ds"
      with sortedIdentities_set [OF that [unfolded displayIdentities_def]]
      obtain n where n: "n \<in> set hs \<union> set ss" and i: "identityByID (nodeStatuses ns) n = Some i"
        by (auto simp: set_union)
      from identityByID_nodeID [OF i] n hsub ssub
      show "map_of (livenessStatusByNodeID ns) (nodeID i) = Some HEALTHY
                         \<or> map_of (livenessStatusByNodeID ns) (nodeID i) = Some SUSPECT"
        by (auto simp: set_init)
    qed
    have t: "\<forall>i\<in>set sis. map_of (livenessStatusByNodeID ns) (nodeID i) = Some SUSPECT"
      if "staleIdentities (identityByID (nodeStatuses ns)) ss = Inr sis"
    proof
      fix i assume "i \<in> set sis"
      with sortedIdentities_set [OF that [unfolded staleIdentities_def]]
      obtain n where n: "n \<in> set ss" and i: "identityByID (nodeStatuses ns) n = Some i"
        by auto
      from identityByID_nodeID [OF i] n ssub
      show "map_of (livenessStatusByNodeID ns) (nodeID i) = Some SUSPECT"
        by (auto simp: set_init)
    qed
    from hsub ssub disj d t show ?thesis by blast
  qed
  have unfiltered: "healthyIDs test ns {} None = Inr (healthyIDsContext_init ns)"
    "staleIDsContext test ns {} None = Inr (staleIDsContext_init ns)"
    by (simp_all add: healthyIDs_def staleIDsContext_def localityFilter_def requestedFilter_def)
  from set_init [of ns] filtered parsed unfiltered init_count [of ns] show ?thesis by blast
qed

theorem healthy_and_stale_sets_witness:
  "healthyIDs ex_test ex_ns {} None = Inr [1, 2]
   \<and> staleIDsContext ex_test ex_ns {} None = Inr [3]
   \<and> displayIdentities (identityByID (nodeStatuses ex_ns)) [1, 2] [3]
       = Inr [identityOf ex_status2, identityOf ex_status3, identityOf ex_status1]
   \<and> staleIdentities (identityByID (nodeStatuses ex_ns)) [3] = Inr [identityOf ex_status3]
   \<and> distinct (nodeIDs ex_ns)
   \<and> set [1, 2] \<inter> set [3::int] = {}
   \<and> map_of (livenessStatusByNodeID ex_ns) (nodeID (identityOf ex_status1)) = Some HEALTHY
   \<and> map_of (livenessStatusByNodeID ex_ns) (nodeID (identityOf ex_status2)) = Some HEALTHY
   \<and> map_of (livenessStatusByNodeID ex_ns) (nodeID (identityOf ex_status3)) = Some SUSPECT
   \<and> map_of (livenessStatusByNodeID ex_ns) 4 = Some DEAD
   \<and> length (healthyIDsContext_init ex_ns) + card (set (staleIDsContext_init ex_ns)) = 3"
proof -
  have h: "healthyIDs ex_test ex_ns {} None = Inr [1, 2]"
    by code_simp
  have s: "staleIDsContext ex_test ex_ns {} None = Inr [3]"
    by code_simp
  have d: "displayIdentities (identityByID (nodeStatuses ex_ns)) [1, 2] [3]
       = Inr [identityOf ex_status2, identityOf ex_status3, identityOf ex_status1]"
    by code_simp
  have t: "staleIdentities (identityByID (nodeStatuses ex_ns)) [3] = Inr [identityOf ex_status3]"
    by code_simp
  have n: "distinct (nodeIDs ex_ns)"
    by (simp add: ex_defs)
  have l: "map_of (livenessStatusByNodeID ex_ns) (nodeID (identityOf ex_status1)) = Some HEALTHY"
    "map_of (livenessStatusByNodeID ex_ns) (nodeID (identityOf ex_status2)) = Some HEALTHY"
    "map_of (livenessStatusByNodeID ex_ns) (nodeID (identityOf ex_status3)) = Some SUSPECT"
    "map_of (livenessStatusByNodeID ex_ns) 4 = Some DEAD"
    by (simp_all add: identityOf_def ex_defs)
  have c: "{n \<in> set (nodeIDs ex_ns).
             map_of (livenessStatusByNodeID ex_ns) n = Some HEALTHY
             \<or> map_of (livenessStatusByNodeID ex_ns) n = Some SUSPECT} = {1, 2, 3}"
    by (auto simp: ex_defs)
  from healthy_and_stale_sets
         [of ex_ns ex_test "{}" None "[1, 2]" "[3]"
             "[identityOf ex_status2, identityOf ex_status3, identityOf ex_status1]"
             "[identityOf ex_status3]"]
       h s n
  have "set [1, 2] \<inter> set [3::int] = {}
        \<and> length (healthyIDsContext_init ex_ns) + card (set (staleIDsContext_init ex_ns))
            = card {1, 2, 3::int}"
    unfolding c by blast
  then have "set [1, 2] \<inter> set [3::int] = {}
        \<and> length (healthyIDsContext_init ex_ns) + card (set (staleIDsContext_init ex_ns)) = 3"
    by simp
  with h s d t n l show ?thesis by blast
qed

section \<open>Missing connections\<close>

lemma flatMapE_Inr_iff:
  "flatMapE f xs = Inr ys \<longleftrightarrow>
     (\<forall>x\<in>set xs. \<exists>zs. f x = Inr zs) \<and> ys = concat (map (\<lambda>x. projr (f x)) xs)"
proof (induction xs arbitrary: ys)
  case Nil
  show ?case by auto
next
  case (Cons x xs)
  show ?case
  proof (cases "f x")
    case (Inl e)
    then show ?thesis by auto
  next
    case (Inr zs)
    show ?thesis
    proof (cases "flatMapE f xs")
      case (Inl e)
      with Cons.IH \<open>f x = Inr zs\<close> show ?thesis by auto
    next
      case r: (Inr ws)
      with Cons.IH [of ws] \<open>f x = Inr zs\<close> show ?thesis by auto
    qed
  qed
qed

lemma mapE_total:
  "(\<forall>x\<in>set xs. \<exists>y. f x = Inr y) \<Longrightarrow> mapE f xs = Inr (map (\<lambda>x. projr (f x)) xs)"
  by (induction xs) auto

lemma length_filter_concat:
  "length (filter P (concat xss)) = sum_list (map (\<lambda>xs. length (filter P xs)) xss)"
  by (induction xss) auto

lemma sum_list_single:
  "distinct xs \<Longrightarrow> a \<in> set xs \<Longrightarrow> (\<forall>x\<in>set xs. x \<noteq> a \<longrightarrow> h x = (0::nat)) \<Longrightarrow>
     sum_list (map h xs) = h a"
proof (induction xs)
  case Nil
  then show ?case by simp
next
  case (Cons x xs)
  show ?case
  proof (cases "x = a")
    case True
    with Cons.prems have "\<forall>y\<in>set xs. h y = 0" by auto
    then have "sum_list (map h xs) = 0" by simp
    with True show ?thesis by simp
  next
    case False
    with Cons show ?thesis by auto
  qed
qed

lemma length_filter_sort_key:
  "length (filter P (sort_key k xs)) = length (filter P xs)"
  by (simp add: filter_sort)

lemma set_keys: "set (keys m) = fst ` set m"
  by (simp add: keys_def)

lemma distinct_keys: "distinct (keys m)"
  by (simp add: keys_def)

lemma key_iff_entry: "b \<in> set (keys m) \<longleftrightarrow> (\<exists>l. map_of m b = Some l)"
  using map_of_eq_None_iff [of m b] by (auto simp: set_keys)


lemma length_filter_eq_distinct:
  "distinct xs \<Longrightarrow> length (filter (\<lambda>b. b = y) xs) = (if y \<in> set xs then 1 else 0)"
  by (induction xs) auto

lemma noConnectionsFrom_Inr:
  assumes st: "map_of (nodeStatusByID ns) a = Some status"
    and fa: "byID a = Some f"
    and peers: "\<forall>b\<in>set (difference (keys (latencies status)) healthy). \<exists>t. byID b = Some t"
  shows "noConnectionsFrom ns byID healthy a =
           Inr (sort_key (\<lambda>c. locality (from_identity c))
                 (sort_key (\<lambda>c. nodeID (from_identity c))
                   (sort_key (\<lambda>c. locality (to_identity c))
                     (sort_key (\<lambda>c. nodeID (to_identity c))
                       (map (\<lambda>b. \<lparr> from_identity = f, to_identity = the (byID b) \<rparr>)
                          (difference (keys (latencies status)) healthy))))))"
proof -
  have each: "noConnection byID a b = Inr \<lparr> from_identity = f, to_identity = the (byID b) \<rparr>"
    if "b \<in> set (difference (keys (latencies status)) healthy)" for b
    using that peers fa by (auto simp: noConnection_def)
  then have "\<forall>b\<in>set (difference (keys (latencies status)) healthy).
               \<exists>c. noConnection byID a b = Inr c"
    by blast
  from mapE_total [OF this]
  have "mapE (noConnection byID a) (difference (keys (latencies status)) healthy)
          = Inr (map (\<lambda>b. projr (noConnection byID a b))
                   (difference (keys (latencies status)) healthy))" .
  also have "map (\<lambda>b. projr (noConnection byID a b)) (difference (keys (latencies status)) healthy)
             = map (\<lambda>b. \<lparr> from_identity = f, to_identity = the (byID b) \<rparr>)
                 (difference (keys (latencies status)) healthy)"
    by (intro map_cong refl) (simp add: each)
  finally show ?thesis
    by (simp add: noConnectionsFrom_def st)
qed

lemma noConnectionsFrom_count:
  assumes st: "map_of (nodeStatusByID ns) a = Some status"
    and fa: "byID a = Some f"
    and peers: "\<forall>b\<in>set (difference (keys (latencies status)) healthy). \<exists>t. byID b = Some t"
    and ids: "\<forall>n i. byID n = Some i \<longrightarrow> nodeID i = n"
  shows "length (filter (\<lambda>c. nodeID (from_identity c) = x \<and> nodeID (to_identity c) = y)
                   (projr (noConnectionsFrom ns byID healthy a)))
         = (if a = x \<and> y \<in> set (keys (latencies status)) \<and> y \<notin> set healthy then 1 else 0)"
proof -
  let ?peers = "difference (keys (latencies status)) healthy"
  let ?P = "\<lambda>c. nodeID (from_identity c) = x \<and> nodeID (to_identity c) = y"
  let ?mk = "\<lambda>b. \<lparr> from_identity = f, to_identity = the (byID b) \<rparr>"
  have dp: "distinct ?peers"
    by (simp add: difference_def distinct_keys)
  have fn: "nodeID f = a"
    using ids fa by blast
  have "length (filter ?P (projr (noConnectionsFrom ns byID healthy a)))
        = length (filter ?P (map ?mk ?peers))"
    by (simp add: noConnectionsFrom_Inr [OF st fa peers] length_filter_sort_key)
  also have "\<dots> = length (filter (\<lambda>b. ?P (?mk b)) ?peers)"
    by (simp add: filter_map comp_def)
  also have "filter (\<lambda>b. ?P (?mk b)) ?peers = filter (\<lambda>b. a = x \<and> b = y) ?peers"
  proof (intro filter_cong refl)
    fix b assume "b \<in> set ?peers"
    with peers obtain t where t: "byID b = Some t" by blast
    with ids have "nodeID t = b" by blast
    with t fn show "?P (?mk b) \<longleftrightarrow> a = x \<and> b = y" by simp
  qed
  also have "length (filter (\<lambda>b. a = x \<and> b = y) ?peers)
             = (if a = x then length (filter (\<lambda>b. b = y) ?peers) else 0)"
    by simp
  also have "\<dots> = (if a = x \<and> y \<in> set ?peers then 1 else 0)"
    by (simp add: length_filter_eq_distinct [OF dp])
  finally show ?thesis
    by (simp add: difference_def)
qed

lemma noConnectionsFrom_set:
  assumes st: "map_of (nodeStatusByID ns) a = Some status"
    and fa: "byID a = Some f"
    and peers: "\<forall>b\<in>set (difference (keys (latencies status)) healthy). \<exists>t. byID b = Some t"
  shows "set (projr (noConnectionsFrom ns byID healthy a))
         = (\<lambda>b. \<lparr> from_identity = f, to_identity = the (byID b) \<rparr>)
             ` (set (keys (latencies status)) - set healthy)"
  by (auto simp: noConnectionsFrom_Inr [OF st fa peers] difference_def)

text \<open>
  Claim C9. Let the healthy ids be distinct, let every healthy node have a status
  record and an identity, and let every peer key of a healthy node that is not healthy
  have an identity. Then the list of missing connections is returned, and for every
  healthy node A and every peer key of A's latency map that is not healthy it holds
  exactly one entry from A to the peer and no entry from the peer to A. Every entry
  goes from a healthy node to a node that is not healthy, and carries the identities
  recorded for the two ids.
\<close>

theorem noConnections_one_entry_per_peer:
  assumes dist: "distinct healthy"
    and wf: "\<forall>a\<in>set healthy. \<exists>status f.
               map_of (nodeStatusByID ns) a = Some status
               \<and> identityByID (nodeStatuses ns) a = Some f
               \<and> (\<forall>b\<in>set (keys (latencies status)). b \<notin> set healthy \<longrightarrow>
                     (\<exists>t. identityByID (nodeStatuses ns) b = Some t))"
  shows "\<exists>ncs. noConnections ns (identityByID (nodeStatuses ns)) healthy = Inr ncs
     \<and> (\<forall>a status b l.
           a \<in> set healthy \<and> map_of (nodeStatusByID ns) a = Some status
           \<and> map_of (latencies status) b = Some l \<and> b \<notin> set healthy \<longrightarrow>
           length (filter (\<lambda>c. nodeID (from_identity c) = a \<and> nodeID (to_identity c) = b) ncs) = 1
           \<and> filter (\<lambda>c. nodeID (from_identity c) = b \<and> nodeID (to_identity c) = a) ncs = [])
     \<and> (\<forall>c\<in>set ncs.
           nodeID (from_identity c) \<in> set healthy \<and> nodeID (to_identity c) \<notin> set healthy
           \<and> identityByID (nodeStatuses ns) (nodeID (from_identity c)) = Some (from_identity c)
           \<and> identityByID (nodeStatuses ns) (nodeID (to_identity c)) = Some (to_identity c))"
proof -
  let ?byID = "identityByID (nodeStatuses ns)"
  let ?row = "noConnectionsFrom ns ?byID healthy"
  let ?ncs = "concat (map (\<lambda>a. projr (?row a)) healthy)"
  have ids: "\<forall>n i. ?byID n = Some i \<longrightarrow> nodeID i = n"
    unfolding identityByID_def using fold_identity_nodeID by fastforce
  have row: "\<exists>status f. map_of (nodeStatusByID ns) a = Some status \<and> ?byID a = Some f
               \<and> (\<forall>b\<in>set (difference (keys (latencies status)) healthy). \<exists>t. ?byID b = Some t)"
    if "a \<in> set healthy" for a
    using wf that by (fastforce simp: difference_def)
  have defined: "\<forall>a\<in>set healthy. \<exists>zs. ?row a = Inr zs"
  proof
    fix a assume "a \<in> set healthy"
    from row [OF this] obtain status f where
      "map_of (nodeStatusByID ns) a = Some status" "?byID a = Some f"
      "\<forall>b\<in>set (difference (keys (latencies status)) healthy). \<exists>t. ?byID b = Some t"
      by blast
    from noConnectionsFrom_Inr [OF this] show "\<exists>zs. ?row a = Inr zs" by blast
  qed
  then have res: "noConnections ns ?byID healthy = Inr ?ncs"
    by (simp add: noConnections_def flatMapE_Inr_iff)
  have count: "length (filter (\<lambda>c. nodeID (from_identity c) = x \<and> nodeID (to_identity c) = y) ?ncs)
               = (if x \<in> set healthy
                     \<and> y \<in> set (keys (latencies (the (map_of (nodeStatusByID ns) x))))
                     \<and> y \<notin> set healthy then 1 else 0)" for x y
  proof -
    let ?h = "\<lambda>a. length (filter (\<lambda>c. nodeID (from_identity c) = x \<and> nodeID (to_identity c) = y)
                              (projr (?row a)))"
    have h: "?h a = (if a = x \<and> y \<in> set (keys (latencies (the (map_of (nodeStatusByID ns) a))))
                        \<and> y \<notin> set healthy then 1 else 0)"
      if "a \<in> set healthy" for a
    proof -
      from row [OF that] obtain status f where r:
        "map_of (nodeStatusByID ns) a = Some status" "?byID a = Some f"
        "\<forall>b\<in>set (difference (keys (latencies status)) healthy). \<exists>t. ?byID b = Some t"
        by blast
      from noConnectionsFrom_count [OF r ids, of x y] r(1) show ?thesis by simp
    qed
    have total: "length (filter (\<lambda>c. nodeID (from_identity c) = x \<and> nodeID (to_identity c) = y) ?ncs)
                 = sum_list (map ?h healthy)"
      by (simp add: length_filter_concat comp_def)
    show ?thesis
    proof (cases "x \<in> set healthy")
      case True
      have "\<forall>a\<in>set healthy. a \<noteq> x \<longrightarrow> ?h a = 0"
        using h by simp
      from sum_list_single [OF dist True this] total h [OF True] True
      show ?thesis by simp
    next
      case False
      have "\<forall>a\<in>set healthy. ?h a = 0"
        using h False by auto
      then have "sum_list (map ?h healthy) = 0"
        by simp
      with total False show ?thesis by simp
    qed
  qed
  have one: "length (filter (\<lambda>c. nodeID (from_identity c) = a \<and> nodeID (to_identity c) = b) ?ncs) = 1
           \<and> filter (\<lambda>c. nodeID (from_identity c) = b \<and> nodeID (to_identity c) = a) ?ncs = []"
    if "a \<in> set healthy" "map_of (nodeStatusByID ns) a = Some status"
       "map_of (latencies status) b = Some l" "b \<notin> set healthy" for a status b l
  proof -
    have "b \<in> set (keys (latencies status))"
      using that(3) by (auto simp: key_iff_entry)
    with that count [of a b] have 1: "length (filter (\<lambda>c. nodeID (from_identity c) = a
                                       \<and> nodeID (to_identity c) = b) ?ncs) = 1"
      by simp
    from that(4) count [of b a]
    have "length (filter (\<lambda>c. nodeID (from_identity c) = b \<and> nodeID (to_identity c) = a) ?ncs) = 0"
      by simp
    with 1 show ?thesis by simp
  qed
  have members: "nodeID (from_identity c) \<in> set healthy \<and> nodeID (to_identity c) \<notin> set healthy
           \<and> ?byID (nodeID (from_identity c)) = Some (from_identity c)
           \<and> ?byID (nodeID (to_identity c)) = Some (to_identity c)"
    if "c \<in> set ?ncs" for c
  proof -
    from that obtain a where a: "a \<in> set healthy" and c: "c \<in> set (projr (?row a))"
      by auto
    from row [OF a] obtain status f where r:
      "map_of (nodeStatusByID ns) a = Some status" "?byID a = Some f"
      "\<forall>b\<in>set (difference (keys (latencies status)) healthy). \<exists>t. ?byID b = Some t"
      by blast
    from c obtain b where b: "b \<in> set (keys (latencies status))" "b \<notin> set healthy"
      and ceq: "c = \<lparr> from_identity = f, to_identity = the (?byID b) \<rparr>"
      unfolding noConnectionsFrom_set [OF r] by blast
    from b r(3) obtain t where t: "?byID b = Some t"
      by (auto simp: difference_def)
    from ids r(2) t have "nodeID f = a" "nodeID t = b" by blast+
    with a b r(2) t ceq show ?thesis by simp
  qed
  from res one members show ?thesis by blast
qed


theorem noConnections_one_entry_per_peer_witness:
  "distinct [1, 2::int]
   \<and> map_of (nodeStatusByID ex_ns) 1 = Some ex_status1
   \<and> map_of (latencies ex_status1) 3 = Some 7000000
   \<and> map_of (latencies ex_status3) 1 = Some 8000000
   \<and> noConnections ex_ns (identityByID (nodeStatuses ex_ns)) [1, 2]
       = Inr [\<lparr> from_identity = identityOf ex_status1, to_identity = identityOf ex_status3 \<rparr>,
              \<lparr> from_identity = identityOf ex_status1, to_identity = identityOf ex_status4 \<rparr>,
              \<lparr> from_identity = identityOf ex_status2, to_identity = identityOf ex_status3 \<rparr>]
   \<and> length (filter (\<lambda>c. nodeID (from_identity c) = 1 \<and> nodeID (to_identity c) = 3)
               [\<lparr> from_identity = identityOf ex_status1, to_identity = identityOf ex_status3 \<rparr>,
                \<lparr> from_identity = identityOf ex_status1, to_identity = identityOf ex_status4 \<rparr>,
                \<lparr> from_identity = identityOf ex_status2, to_identity = identityOf ex_status3 \<rparr>])
       = 1
   \<and> filter (\<lambda>c. nodeID (from_identity c) = 3 \<and> nodeID (to_identity c) = 1)
               [\<lparr> from_identity = identityOf ex_status1, to_identity = identityOf ex_status3 \<rparr>,
                \<lparr> from_identity = identityOf ex_status1, to_identity = identityOf ex_status4 \<rparr>,
                \<lparr> from_identity = identityOf ex_status2, to_identity = identityOf ex_status3 \<rparr>]
       = []"
proof -
  let ?ncs = "[\<lparr> from_identity = identityOf ex_status1, to_identity = identityOf ex_status3 \<rparr>,
               \<lparr> from_identity = identityOf ex_status1, to_identity = identityOf ex_status4 \<rparr>,
               \<lparr> from_identity = identityOf ex_status2, to_identity = identityOf ex_status3 \<rparr>]"
  have d: "distinct [1, 2::int]"
    by simp
  have byID: "identityByID (nodeStatuses ex_ns) 1 = Some (identityOf ex_status1)"
    "identityByID (nodeStatuses ex_ns) 2 = Some (identityOf ex_status2)"
    "identityByID (nodeStatuses ex_ns) 3 = Some (identityOf ex_status3)"
    "identityByID (nodeStatuses ex_ns) 4 = Some (identityOf ex_status4)"
    by (simp_all add: identityByID_def ex_defs)
  have st: "map_of (nodeStatusByID ex_ns) 1 = Some ex_status1"
    "map_of (nodeStatusByID ex_ns) 2 = Some ex_status2"
    by (simp_all add: ex_defs)
  have ks: "keys (latencies ex_status1) = [2, 3, 4]" "keys (latencies ex_status2) = [1, 3]"
    by (simp_all add: keys_def ex_defs)
  have wf: "\<forall>a\<in>set [1, 2]. \<exists>status f.
               map_of (nodeStatusByID ex_ns) a = Some status
               \<and> identityByID (nodeStatuses ex_ns) a = Some f
               \<and> (\<forall>b\<in>set (keys (latencies status)). b \<notin> set [1, 2] \<longrightarrow>
                     (\<exists>t. identityByID (nodeStatuses ex_ns) b = Some t))"
    by (simp add: st byID ks)
  have e: "map_of (latencies ex_status1) 3 = Some 7000000"
    "map_of (latencies ex_status3) 1 = Some 8000000"
    by (simp_all add: ex_defs)
  have v: "noConnections ex_ns (identityByID (nodeStatuses ex_ns)) [1, 2] = Inr ?ncs"
    by code_simp
  from noConnections_one_entry_per_peer [OF d wf]
  obtain ncs where r: "noConnections ex_ns (identityByID (nodeStatuses ex_ns)) [1, 2] = Inr ncs"
    and q: "\<forall>a status b l.
           a \<in> set [1, 2] \<and> map_of (nodeStatusByID ex_ns) a = Some status
           \<and> map_of (latencies status) b = Some l \<and> b \<notin> set [1, 2] \<longrightarrow>
           length (filter (\<lambda>c. nodeID (from_identity c) = a \<and> nodeID (to_identity c) = b) ncs) = 1
           \<and> filter (\<lambda>c. nodeID (from_identity c) = b \<and> nodeID (to_identity c) = a) ncs = []"
    by (elim exE conjE) (rule that, assumption+)
  from r v have n: "ncs = ?ncs"
    by simp
  have m: "(1::int) \<in> set [1, 2]" "(3::int) \<notin> set [1, 2]"
    by simp_all
  from q [rule_format, of 1 ex_status1 3 7000000] m st(1) e(1)
  have "length (filter (\<lambda>c. nodeID (from_identity c) = 1 \<and> nodeID (to_identity c) = 3) ?ncs) = 1
        \<and> filter (\<lambda>c. nodeID (from_identity c) = 3 \<and> nodeID (to_identity c) = 1) ?ncs = []"
    unfolding n by blast
  with d st e v show ?thesis by blast
qed

section \<open>Latencies that are not strictly positive\<close>

lemma skew_sample: "latencies_sample ex_skew [1, 2, 3] = Inr [1, 1, 1, 5]"
  by (simp add: latencies_sample_def latenciesFrom_def latencyMs_def without_def NanoToMilli_def
        ex_defs)

lemma skew_stats:
  "stddevPlus1 [1, 1, 1, 5] = Num 4" "stddevPlus2 [1, 1, 1, 5] = Num 6"
  "stddevMinus1 [1, 1, 1, 5] = Num 0" "stddevMinus2 [1, 1, 1, 5] = Num (- 2)"
  by (simp_all add: stddevPlus1_def stddevPlus2_def stddevMinus1_def stddevMinus2_def
        mean_def stddev_def d3Mean_def d3Deviation_def d3Variance_def power2_eq_square)

lemma latenciesFrom_positive:
  "latenciesFrom ns healthy a = Inr xs \<Longrightarrow> \<forall>x\<in>set xs. 0 < x"
  by (auto simp: latenciesFrom_def split: sum.splits)

lemma latencies_sample_positive:
  assumes "latencies_sample ns healthy = Inr sample"
  shows "\<forall>x\<in>set sample. 0 < x"
proof
  fix x assume "x \<in> set sample"
  with assms obtain a zs where "latenciesFrom ns healthy a = Inr zs" "x \<in> set zs"
    unfolding latencies_sample_def flatMapE_Inr_iff by fastforce
  with latenciesFrom_positive show "0 < x" by blast
qed

lemma mapE_positive_cong:
  assumes "\<forall>b\<in>set bs. f b = g b \<or> (\<exists>x y. f b = Inr x \<and> g b = Inr y \<and> x \<le> 0 \<and> y \<le> (0::real))"
  shows "(case mapE f bs of Inl e \<Rightarrow> Inl e | Inr mss \<Rightarrow> Inr (filter (\<lambda>ms. ms > 0) mss))
         = (case mapE g bs of Inl e \<Rightarrow> Inl e | Inr mss \<Rightarrow> Inr (filter (\<lambda>ms. ms > 0) mss))"
  using assms
proof (induction bs)
  case Nil
  show ?case by simp
next
  case (Cons b bs)
  from Cons.prems have tl: "\<forall>b\<in>set bs. f b = g b
        \<or> (\<exists>x y. f b = Inr x \<and> g b = Inr y \<and> x \<le> 0 \<and> y \<le> 0)"
    by simp
  note ih = Cons.IH [OF tl]
  from Cons.prems consider (same) "f b = g b"
    | (nonpos) x y where "f b = Inr x" "g b = Inr y" "x \<le> 0" "y \<le> 0"
    by auto
  then show ?case
  proof cases
    case same
    with ih show ?thesis
      by (cases "g b"; cases "mapE f bs"; cases "mapE g bs") auto
  next
    case nonpos
    with ih show ?thesis
      by (cases "mapE f bs"; cases "mapE g bs") auto
  qed
qed

lemma flatMapE_cong:
  "(\<forall>x\<in>set xs. f x = g x) \<Longrightarrow> flatMapE f xs = flatMapE g xs"
  by (induction xs) (auto split: sum.splits)

text \<open>
  Claim C10. Let a and b be distinct healthy nodes, neither stale, and let a's status
  hold for b a latency that is not strictly positive in milliseconds. Then every value
  of the sample list is strictly positive, so this latency is not in it; the cell of
  (a, b) still carries a band and this latency, it is not the no-connection cell; and
  a snapshot that differs only in this entry, with another value that is not strictly
  positive, has the same sample list, hence the same mean, deviation and thresholds.
\<close>

theorem nonpositive_latency_classified_not_sampled:
  assumes "a \<in> set healthy" and "b \<in> set healthy" and "a \<noteq> b"
    and "a \<notin> staleIDs" and "b \<notin> staleIDs"
    and "map_of (nodeStatusByID ns) a = Some status"
    and "map_of (latencies status) b = Some l"
    and "NanoToMilli l \<le> 0"
  shows "(\<forall>sample. latencies_sample ns healthy = Inr sample \<longrightarrow>
            (\<forall>ms\<in>set sample. 0 < ms) \<and> NanoToMilli l \<notin> set sample)
     \<and> (\<exists>h. getLatencyCell staleIDs ns plus2 plus1 minus2 minus1 a b
               = Inr (HeatCell h (NanoToMilli l)))
     \<and> (\<forall>ns'. (\<forall>x\<in>set healthy. \<forall>y\<in>set healthy.
                   (x, y) \<noteq> (a, b) \<longrightarrow> latencyMs ns' x y = latencyMs ns x y)
               \<and> (\<exists>v. latencyMs ns' a b = Inr v \<and> v \<le> 0) \<longrightarrow>
               latencies_sample ns' healthy = latencies_sample ns healthy)"
proof -
  have excluded: "(\<forall>ms\<in>set sample. 0 < ms) \<and> NanoToMilli l \<notin> set sample"
    if "latencies_sample ns healthy = Inr sample" for sample
    using latencies_sample_positive [OF that] assms(8) by fastforce
  have cell: "\<exists>h. getLatencyCell staleIDs ns plus2 plus1 minus2 minus1 a b
               = Inr (HeatCell h (NanoToMilli l))"
    using assms(3-7) by (simp add: getLatencyCell_def Let_def)
  have here: "latencyMs ns a b = Inr (NanoToMilli l)"
    using assms(6,7) by (simp add: latencyMs_def)
  have same: "latencies_sample ns' healthy = latencies_sample ns healthy"
    if others: "\<forall>x\<in>set healthy. \<forall>y\<in>set healthy.
                   (x, y) \<noteq> (a, b) \<longrightarrow> latencyMs ns' x y = latencyMs ns x y"
      and v: "\<exists>v. latencyMs ns' a b = Inr v \<and> v \<le> 0" for ns'
  proof -
    have "latenciesFrom ns' healthy x = latenciesFrom ns healthy x" if x: "x \<in> set healthy" for x
    proof -
      have "\<forall>y\<in>set (without healthy x).
              latencyMs ns' x y = latencyMs ns x y
              \<or> (\<exists>p q. latencyMs ns' x y = Inr p \<and> latencyMs ns x y = Inr q \<and> p \<le> 0 \<and> q \<le> 0)"
      proof
        fix y assume "y \<in> set (without healthy x)"
        then have y: "y \<in> set healthy"
          by (simp add: without_def)
        show "latencyMs ns' x y = latencyMs ns x y
              \<or> (\<exists>p q. latencyMs ns' x y = Inr p \<and> latencyMs ns x y = Inr q \<and> p \<le> 0 \<and> q \<le> 0)"
        proof (cases "(x, y) = (a, b)")
          case True
          with v here assms(8) show ?thesis by auto
        next
          case False
          with others x y show ?thesis by blast
        qed
      qed
      from mapE_positive_cong [OF this] show ?thesis
        by (simp add: latenciesFrom_def)
    qed
    then show ?thesis
      unfolding latencies_sample_def by (intro flatMapE_cong) blast
  qed
  from excluded cell same show ?thesis by blast
qed

theorem nonpositive_latency_classified_not_sampled_witness:
  "map_of (nodeStatusByID ex_skew) 2 = Some ex_skew2
   \<and> map_of (latencies ex_skew2) 3 = Some (- 3000000)
   \<and> NanoToMilli (- 3000000) = - 3
   \<and> latencies_sample ex_skew [1, 2, 3] = Inr [1, 1, 1, 5]
   \<and> - 3 \<notin> set [1, 1, 1, 5::real]
   \<and> getLatencyCell {} ex_skew (stddevPlus2 [1, 1, 1, 5]) (stddevPlus1 [1, 1, 1, 5])
        (stddevMinus2 [1, 1, 1, 5]) (stddevMinus1 [1, 1, 1, 5]) 2 3
       = Inr (HeatCell StddevMinus2 (- 3))
   \<and> latencies_sample ex_skew_zero [1, 2, 3] = Inr [1, 1, 1, 5]
   \<and> getLatencyCell {} ex_skew_zero (stddevPlus2 [1, 1, 1, 5]) (stddevPlus1 [1, 1, 1, 5])
        (stddevMinus2 [1, 1, 1, 5]) (stddevMinus1 [1, 1, 1, 5]) 2 3
       = Inr (HeatCell StddevEven 0)"
proof -
  have st: "map_of (nodeStatusByID ex_skew) 2 = Some ex_skew2"
    and l: "map_of (latencies ex_skew2) 3 = Some (- 3000000)"
    by (simp_all add: ex_defs)
  have ms: "NanoToMilli (- 3000000) = - 3"
    by (simp add: NanoToMilli_def)
  have h: "(2::int) \<in> set [1, 2, 3]" "(3::int) \<in> set [1, 2, 3]" "(2::int) \<noteq> 3"
    "(2::int) \<notin> {}" "(3::int) \<notin> {}" "NanoToMilli (- 3000000) \<le> 0"
    by (simp_all add: ms)
  note inst = nonpositive_latency_classified_not_sampled
               [OF h(1) h(2) h(3) h(4) h(5) st l h(6),
                of "stddevPlus2 [1, 1, 1, 5]" "stddevPlus1 [1, 1, 1, 5]"
                   "stddevMinus2 [1, 1, 1, 5]" "stddevMinus1 [1, 1, 1, 5]"]
  have others: "\<forall>x\<in>set [1, 2, 3]. \<forall>y\<in>set [1, 2, 3].
                  (x, y) \<noteq> (2, 3) \<longrightarrow> latencyMs ex_skew_zero x y = latencyMs ex_skew x y"
    by (simp add: latencyMs_def ex_defs)
  have v: "\<exists>v. latencyMs ex_skew_zero 2 3 = Inr v \<and> v \<le> 0"
    by (simp add: latencyMs_def NanoToMilli_def ex_defs)
  from inst others v have eq: "latencies_sample ex_skew_zero [1, 2, 3] = latencies_sample ex_skew [1, 2, 3]"
    by blast
  from inst skew_sample have out: "- 3 \<notin> set [1, 1, 1, 5::real]"
    unfolding ms by blast
  have c1: "getLatencyCell {} ex_skew (stddevPlus2 [1, 1, 1, 5]) (stddevPlus1 [1, 1, 1, 5])
        (stddevMinus2 [1, 1, 1, 5]) (stddevMinus1 [1, 1, 1, 5]) 2 3
       = Inr (HeatCell StddevMinus2 (- 3))"
    by (simp add: skew_stats getLatencyCell_def NanoToMilli_def ex_defs)
  have c2: "getLatencyCell {} ex_skew_zero (stddevPlus2 [1, 1, 1, 5]) (stddevPlus1 [1, 1, 1, 5])
        (stddevMinus2 [1, 1, 1, 5]) (stddevMinus1 [1, 1, 1, 5]) 2 3
       = Inr (HeatCell StddevEven 0)"
    by (simp add: skew_stats getLatencyCell_def NanoToMilli_def ex_defs)
  from st l ms skew_sample out c1 c2 eq show ?thesis
    by simp
qed

end
